theory Spec2Isabelle
  imports Main
begin

section \<open>Python strings and integers\<close>

text \<open>
  A string is a list of characters with code points 0 to 255. \<open>py_isspace\<close> holds of the
  code points in that range that Python's \<open>str.strip()\<close> removes and that \<open>int()\<close> skips:
  TAB, LF, VT, FF, CR, the four separators 0x1C..0x1F, the blank, and the two above 127,
  NEL (0x85) and the no-break space (0xA0). The decimal digits in that range are \<open>0\<close> to
  \<open>9\<close>.
\<close>

definition py_isspace :: "char \<Rightarrow> bool" where
  "py_isspace c \<longleftrightarrow>
     c \<in> set [CHR 0x09, CHR 0x0A, CHR 0x0B, CHR 0x0C, CHR 0x0D,
               CHR 0x1C, CHR 0x1D, CHR 0x1E, CHR 0x1F, CHR 0x20, CHR 0x85, CHR 0xA0]"

definition py_strip :: "string \<Rightarrow> string" where
  "py_strip s = rev (dropWhile py_isspace (rev (dropWhile py_isspace s)))"

definition digit_val :: "char \<Rightarrow> nat option" where
  "digit_val c =
     (let n = (of_char c :: nat) in if 48 \<le> n \<and> n \<le> 57 then Some (n - 48) else None)"

text \<open>
  The digits of \<open>int(s)\<close>: decimal digits, with single underscores allowed between two
  digits (\<open>int("1_000") = 1000\<close>). The flag says whether the previous character was a digit.
\<close>

fun parse_digits :: "nat \<Rightarrow> bool \<Rightarrow> string \<Rightarrow> nat option" where
  "parse_digits acc prev [] = (if prev then Some acc else None)"
| "parse_digits acc prev (c # cs) =
     (if c = CHR ''_'' then (if prev \<and> cs \<noteq> [] then parse_digits acc False cs else None)
      else case digit_val c of
             None \<Rightarrow> None
           | Some d \<Rightarrow> parse_digits (acc * 10 + d) True cs)"

definition count_digits :: "string \<Rightarrow> nat" where
  "count_digits s = length (filter (\<lambda>c. digit_val c \<noteq> None) s)"

text \<open>CPython's default limit on the digits of a decimal string given to \<open>int()\<close>.\<close>

definition int_max_str_digits :: nat where
  "int_max_str_digits = 4300"

text \<open>
  \<open>int(s)\<close> for a string: \<open>None\<close> stands for the \<open>ValueError\<close> that every caller in the
  repository catches with \<open>except Exception\<close>.
\<close>

definition py_int :: "string \<Rightarrow> int option" where
  "py_int s =
     (let t = py_strip s;
          neg = (t \<noteq> [] \<and> hd t = CHR ''-'');
          body = (if t \<noteq> [] \<and> (hd t = CHR ''-'' \<or> hd t = CHR ''+'') then tl t else t)
      in case parse_digits 0 False body of
           None \<Rightarrow> None
         | Some n \<Rightarrow>
             if count_digits body > int_max_str_digits then None
             else Some (if neg then - int n else int n))"

text \<open>\<open>str(i)\<close> for an integer.\<close>

definition digit_char :: "nat \<Rightarrow> char" where
  "digit_char d = char_of (48 + d)"

fun digits_of :: "nat \<Rightarrow> string" where
  "digits_of n = (if n < 10 then [digit_char n] else digits_of (n div 10) @ [digit_char (n mod 10)])"

declare digits_of.simps [simp del]

definition py_str_int :: "int \<Rightarrow> string" where
  "py_str_int i = (if i < 0 then CHR ''-'' # digits_of (nat (- i)) else digits_of (nat i))"

section \<open>The database\<close>

text \<open>
  One row of table \<open>vehicles\<close>. The columns \<open>id\<close>, \<open>vehicle_id\<close>, \<open>model\<close>, \<open>owner\<close>,
  \<open>registration\<close> and \<open>accident_details\<close> are in every \<open>CREATE TABLE\<close> of the repository;
  \<open>created_at\<close> and \<open>updated_at\<close> are not, and a row of a table without the column holds
  \<open>None\<close> there. \<open>None\<close> is also SQL's NULL.
\<close>

record vehicle =
  v_id :: int
  v_vehicle_id :: string
  v_model :: "string option"
  v_owner :: "string option"
  v_registration :: "string option"
  v_accident_details :: "string option"
  v_created_at :: "string option"
  v_updated_at :: "string option"

text \<open>
  The JSON object posted to \<open>/hardware/event\<close>, read with \<open>data.get(key)\<close>: \<open>None\<close> is a key
  that is absent or null. The identifier, the timestamp and the notes are JSON strings (an
  identifier sent as a JSON integer is the string \<open>str\<close> makes of it); the three numbers are
  kept as their JSON text.
\<close>

record hw_payload =
  p_vehicleID :: "string option"
  p_vehicle_id :: "string option"
  p_intensity :: "string option"
  p_lat :: "string option"
  p_lng :: "string option"
  p_timestamp :: "string option"
  p_notes :: "string option"
  p_accidentDetails :: "string option"

text \<open>
  One row of table \<open>accident_events\<close>, with the columns of both schemas of the repository:
  \<open>User_app.py\<close> and \<open>db_init.py\<close> create \<open>intensity\<close>, \<open>lat\<close>, \<open>lng\<close>, \<open>timestamp\<close>,
  \<open>raw_payload\<close> and \<open>created_at\<close>; \<open>Dev_app.py\<close> creates \<open>event_time\<close> and adds \<open>details\<close>
  and \<open>meta_json\<close>. Column \<open>raw_payload\<close> holds \<open>json.dumps(data)\<close>; the row keeps the
  object that text serialises.
\<close>

record event =
  e_id :: int
  e_vehicle_id :: string
  e_intensity :: "string option"
  e_lat :: "string option"
  e_lng :: "string option"
  e_timestamp :: "string option"
  e_raw_payload :: "hw_payload option"
  e_created_at :: "string option"
  e_event_time :: "string option"
  e_details :: "string option"
  e_meta_json :: "string option"

text \<open>
  The database file: the rows of both tables in rowid order, the \<open>AUTOINCREMENT\<close> counters
  of \<open>sqlite_sequence\<close>, and for each table the names of the columns it has beyond the ones
  every schema of the repository shares (\<open>CREATE TABLE IF NOT EXISTS\<close> keeps whatever table
  the file already holds).
\<close>

record db =
  vehicles :: "vehicle list"
  veh_seq :: int
  veh_cols :: "string list"
  accident_events :: "event list"
  ev_seq :: int
  ev_cols :: "string list"

datatype error = OperationalError | IntegrityError | OverflowError

definition has_cols :: "string list \<Rightarrow> string list \<Rightarrow> bool" where
  "has_cols present needed \<longleftrightarrow> list_all (\<lambda>c. c \<in> set present) needed"

definition i64_max :: int where
  "i64_max = 9223372036854775807"

definition i64_min :: int where
  "i64_min = - 9223372036854775808"

text \<open>Binding a Python integer to a statement: \<open>OverflowError\<close> outside 64 bits.\<close>

definition bind_int :: "int \<Rightarrow> error + int" where
  "bind_int i = (if i64_min \<le> i \<and> i \<le> i64_max then Inr i else Inl OverflowError)"

text \<open>
  The rowid of a new row of an \<open>AUTOINCREMENT\<close> table: one more than the largest rowid the
  table has ever held; the insert fails when that was the largest 64-bit integer.
\<close>

definition next_rowid :: "int \<Rightarrow> int list \<Rightarrow> error + int" where
  "next_rowid seq ids =
     (let m = fold max ids seq in if i64_max \<le> m then Inl OperationalError else Inr (m + 1))"

text \<open>The value a column with \<open>DEFAULT CURRENT_TIMESTAMP\<close> gets when the table has it.\<close>

definition default_ts :: "string list \<Rightarrow> string \<Rightarrow> string \<Rightarrow> string option" where
  "default_ts cols name now = (if name \<in> set cols then Some now else None)"

subsection \<open>Queries\<close>

text \<open>\<open>query_db(..., one=True)\<close>: \<open>rv[0] if rv else None\<close>.\<close>

definition one_row :: "'a list \<Rightarrow> 'a option" where
  "one_row rv = (case rv of [] \<Rightarrow> None | r # _ \<Rightarrow> Some r)"

text \<open>\<open>SELECT * FROM vehicles WHERE vehicle_id = ?\<close>: binary text comparison.\<close>

definition select_vehicles_by_vehicle_id :: "db \<Rightarrow> string \<Rightarrow> vehicle list" where
  "select_vehicles_by_vehicle_id d s = filter (\<lambda>v. v_vehicle_id v = s) (vehicles d)"

text \<open>\<open>SELECT * FROM vehicles WHERE id = ?\<close> with a Python integer bound.\<close>

definition select_vehicles_by_id :: "db \<Rightarrow> int \<Rightarrow> error + vehicle list" where
  "select_vehicles_by_id d i =
     (case bind_int i of
        Inl e \<Rightarrow> Inl e
      | Inr k \<Rightarrow> Inr (filter (\<lambda>v. v_id v = k) (vehicles d)))"

subsection \<open>The identifier resolver\<close>

text \<open>
  \<open>find_vehicle_by_identifier(ident)\<close> of \<open>User_app.py\<close>. The Python returns the pair
  \<open>(row, used_field)\<close> or \<open>(None, None)\<close>; here \<open>Inr None\<close> is \<open>(None, None)\<close> and \<open>Inl\<close> an
  exception that leaves the function. A fetched \<open>sqlite3.Row\<close> of \<open>SELECT *\<close> has at least
  one column, so \<open>if row:\<close> tests that a row was fetched.
\<close>

definition find_vehicle_by_identifier ::
    "db \<Rightarrow> string option \<Rightarrow> error + (vehicle \<times> string) option" where
  "find_vehicle_by_identifier d ident =
     (case ident of
        None \<Rightarrow> Inr None
      | Some s \<Rightarrow>
          (let ident_str = py_strip s in
           if ident_str = [] then Inr None
           else
             (case one_row (select_vehicles_by_vehicle_id d ident_str) of
                Some row \<Rightarrow> Inr (Some (row, ''vehicle_id''))
              | None \<Rightarrow>
                  (case py_int ident_str of
                     None \<Rightarrow> Inr None
                   | Some iid \<Rightarrow>
                       (case select_vehicles_by_id d iid of
                          Inl e \<Rightarrow> Inl e
                        | Inr rv \<Rightarrow>
                            (case one_row rv of
                               Some row \<Rightarrow> Inr (Some (row, ''id''))
                             | None \<Rightarrow> Inr None))))))"

section \<open>Connections and transactions\<close>

text \<open>
  A \<open>sqlite3\<close> connection: the database file as last committed, and the working copy of
  the open transaction when there is one. Python's default (\<open>isolation_level = ""\<close>)
  opens a transaction before the first \<open>INSERT\<close> or \<open>UPDATE\<close> when none is open; a
  statement that fails changes nothing; closing the connection drops the working copy.
\<close>

record conn =
  persisted :: db
  pending :: "db option"

definition connect :: "db \<Rightarrow> conn" where
  "connect d = \<lparr>persisted = d, pending = None\<rparr>"

definition conn_view :: "conn \<Rightarrow> db" where
  "conn_view c = (case pending c of None \<Rightarrow> persisted c | Some wk \<Rightarrow> wk)"

type_synonym 'a io = "conn \<Rightarrow> (error + 'a) \<times> conn"

definition io_return :: "'a \<Rightarrow> 'a io" where
  "io_return x = (\<lambda>c. (Inr x, c))"

definition io_bind :: "'a io \<Rightarrow> ('a \<Rightarrow> 'b io) \<Rightarrow> 'b io" where
  "io_bind m f = (\<lambda>c. case m c of (Inl e, c') \<Rightarrow> (Inl e, c') | (Inr x, c') \<Rightarrow> f x c')"

text \<open>The statements that the three write transactions of the repository execute.\<close>

datatype stmt =
    HW_begin | HW_insert_event | HW_update_by_vehicle_id | HW_update_by_id
  | HW_insert_vehicle | HW_commit
  | User_upsert | User_commit
  | Dev_insert_or_ignore | Dev_select | Dev_update | Dev_insert_event | Dev_commit

text \<open>
  What a request takes from outside the program: the clock (as SQLite's
  \<open>CURRENT_TIMESTAMP\<close> and as Python's \<open>datetime.utcnow().isoformat()\<close>), the configured
  \<open>HW_API_KEY\<close>, and which statements the storage engine fails for reasons outside the
  program (a locked or full disk), and whether publishing raises.
\<close>

record env =
  sql_now :: string
  utc_now :: string
  hw_api_key :: string
  storage_fails :: "stmt \<Rightarrow> bool"
  publish_fails :: bool

definition sql_begin :: "env \<Rightarrow> stmt \<Rightarrow> unit io" where
  "sql_begin env s =
     (\<lambda>c. if storage_fails env s then (Inl OperationalError, c)
          else case pending c of
                 Some _ \<Rightarrow> (Inl OperationalError, c)
               | None \<Rightarrow> (Inr (), c\<lparr>pending := Some (persisted c)\<rparr>))"

definition sql_execute :: "env \<Rightarrow> stmt \<Rightarrow> (db \<Rightarrow> error + 'a \<times> db) \<Rightarrow> 'a io" where
  "sql_execute env s f =
     (\<lambda>c. if storage_fails env s then (Inl OperationalError, c)
          else case f (conn_view c) of
                 Inl e \<Rightarrow> (Inl e, c)
               | Inr (x, d') \<Rightarrow> (Inr x, c\<lparr>pending := Some d'\<rparr>))"

definition sql_query :: "env \<Rightarrow> stmt \<Rightarrow> (db \<Rightarrow> error + 'a) \<Rightarrow> 'a io" where
  "sql_query env s f =
     (\<lambda>c. if storage_fails env s then (Inl OperationalError, c) else (f (conn_view c), c))"

definition sql_commit :: "env \<Rightarrow> stmt \<Rightarrow> unit io" where
  "sql_commit env s =
     (\<lambda>c. if storage_fails env s then (Inl OperationalError, c)
          else (Inr (), \<lparr>persisted = conn_view c, pending = None\<rparr>))"

definition sql_rollback :: "conn \<Rightarrow> conn" where
  "sql_rollback c = c\<lparr>pending := None\<rparr>"

text \<open>\<open>db.close()\<close>: what the file holds afterwards.\<close>

definition sql_close :: "conn \<Rightarrow> db" where
  "sql_close c = persisted c"

subsection \<open>Statements on table \<open>vehicles\<close>\<close>

text \<open>
  A new row: \<open>AUTOINCREMENT\<close> gives the key, \<open>UNIQUE(vehicle_id)\<close> refuses a second row
  with the alias.
\<close>

definition append_vehicle :: "vehicle \<Rightarrow> db \<Rightarrow> error + nat \<times> db" where
  "append_vehicle row d =
     (case next_rowid (veh_seq d) (map v_id (vehicles d)) of
        Inl e \<Rightarrow> Inl e
      | Inr rid \<Rightarrow>
          if (\<exists>u \<in> set (vehicles d). v_vehicle_id u = v_vehicle_id row) then Inl IntegrityError
          else Inr (1, d\<lparr>vehicles := vehicles d @ [row\<lparr>v_id := rid\<rparr>], veh_seq := rid\<rparr>))"

text \<open>
  \<open>UPDATE vehicles SET accident_details=?, updated_at=CURRENT_TIMESTAMP WHERE vehicle_id=?\<close>
  of \<open>hardware_event\<close>; the number returned is \<open>cur.rowcount\<close>. Preparing the statement
  fails on a table without column \<open>updated_at\<close>.
\<close>

definition set_summary :: "string \<Rightarrow> string \<Rightarrow> vehicle \<Rightarrow> vehicle" where
  "set_summary now notes v = v\<lparr>v_accident_details := Some notes, v_updated_at := Some now\<rparr>"

definition update_summary_by_vehicle_id ::
    "string \<Rightarrow> string \<Rightarrow> string \<Rightarrow> db \<Rightarrow> error + nat \<times> db" where
  "update_summary_by_vehicle_id now notes vid d =
     (if \<not> has_cols (veh_cols d) [''updated_at''] then Inl OperationalError
      else Inr (length (filter (\<lambda>v. v_vehicle_id v = vid) (vehicles d)),
                d\<lparr>vehicles :=
                    map (\<lambda>v. if v_vehicle_id v = vid then set_summary now notes v else v)
                      (vehicles d)\<rparr>))"

text \<open>The same \<open>UPDATE\<close> with \<open>WHERE id=?\<close> and a Python integer bound.\<close>

definition update_summary_by_id ::
    "string \<Rightarrow> string \<Rightarrow> int \<Rightarrow> db \<Rightarrow> error + nat \<times> db" where
  "update_summary_by_id now notes iid d =
     (if \<not> has_cols (veh_cols d) [''updated_at''] then Inl OperationalError
      else case bind_int iid of
             Inl e \<Rightarrow> Inl e
           | Inr k \<Rightarrow>
               Inr (length (filter (\<lambda>v. v_id v = k) (vehicles d)),
                    d\<lparr>vehicles :=
                        map (\<lambda>v. if v_id v = k then set_summary now notes v else v)
                          (vehicles d)\<rparr>))"

text \<open>
  \<open>INSERT INTO vehicles (vehicle_id, accident_details, created_at)
  VALUES (?, ?, CURRENT_TIMESTAMP)\<close> of \<open>hardware_event\<close>.
\<close>

definition insert_minimal_vehicle :: "string \<Rightarrow> string \<Rightarrow> string \<Rightarrow> db \<Rightarrow> error + nat \<times> db" where
  "insert_minimal_vehicle now vid notes d =
     (if \<not> has_cols (veh_cols d) [''created_at''] then Inl OperationalError
      else append_vehicle
             \<lparr>v_id = 0, v_vehicle_id = vid, v_model = None, v_owner = None,
              v_registration = None, v_accident_details = Some notes,
              v_created_at = Some now, v_updated_at = None\<rparr> d)"

text \<open>
  \<open>INSERT INTO vehicles (vehicle_id, model, owner, registration, accident_details)
  VALUES (?, ?, ?, ?, ?) ON CONFLICT(vehicle_id) DO UPDATE SET model=excluded.model,
  owner=excluded.owner, registration=excluded.registration\<close> of \<open>User_app.add_vehicle\<close>,
  which binds \<open>None\<close> to \<open>accident_details\<close>.
\<close>

definition upsert_vehicle ::
    "string \<Rightarrow> string \<Rightarrow> string option \<Rightarrow> string option \<Rightarrow> string option \<Rightarrow> db
      \<Rightarrow> error + nat \<times> db" where
  "upsert_vehicle now vid model owner registration d =
     (if (\<exists>u \<in> set (vehicles d). v_vehicle_id u = vid)
      then Inr (1, d\<lparr>vehicles :=
                       map (\<lambda>v. if v_vehicle_id v = vid
                                then v\<lparr>v_model := model, v_owner := owner,
                                       v_registration := registration\<rparr>
                                else v) (vehicles d)\<rparr>)
      else append_vehicle
             \<lparr>v_id = 0, v_vehicle_id = vid, v_model = model, v_owner = owner,
              v_registration = registration, v_accident_details = None,
              v_created_at = default_ts (veh_cols d) ''created_at'' now,
              v_updated_at = None\<rparr> d)"

text \<open>
  \<open>INSERT OR IGNORE INTO vehicles (vehicle_id, model, owner, registration,
  accident_details) VALUES (?, ?, ?, ?, ?)\<close> of \<open>Dev_app.add_vehicle\<close>.
\<close>

definition insert_or_ignore_vehicle ::
    "string \<Rightarrow> string \<Rightarrow> string \<Rightarrow> string \<Rightarrow> string \<Rightarrow> string \<Rightarrow> db \<Rightarrow> error + nat \<times> db" where
  "insert_or_ignore_vehicle now vid model owner registration details d =
     (if (\<exists>u \<in> set (vehicles d). v_vehicle_id u = vid) then Inr (0, d)
      else append_vehicle
             \<lparr>v_id = 0, v_vehicle_id = vid, v_model = Some model, v_owner = Some owner,
              v_registration = Some registration, v_accident_details = Some details,
              v_created_at = default_ts (veh_cols d) ''created_at'' now,
              v_updated_at = None\<rparr> d)"

text \<open>
  \<open>SELECT id, model, owner, registration, accident_details, created_at FROM vehicles
  WHERE vehicle_id = ?\<close> and \<open>fetchone()\<close>, of \<open>Dev_app.add_vehicle\<close>.
\<close>

definition select_existing_vehicle :: "string \<Rightarrow> db \<Rightarrow> error + vehicle option" where
  "select_existing_vehicle vid d =
     (if \<not> has_cols (veh_cols d) [''created_at''] then Inl OperationalError
      else Inr (one_row (select_vehicles_by_vehicle_id d vid)))"

text \<open>
  \<open>UPDATE vehicles SET model=?, owner=?, registration=?, accident_details=?,
  created_at=CURRENT_TIMESTAMP WHERE vehicle_id=?\<close> of \<open>Dev_app.add_vehicle\<close>.
\<close>

definition update_vehicle_dev ::
    "string \<Rightarrow> string \<Rightarrow> string \<Rightarrow> string \<Rightarrow> string \<Rightarrow> string \<Rightarrow> db \<Rightarrow> error + nat \<times> db" where
  "update_vehicle_dev now vid model owner registration details d =
     (if \<not> has_cols (veh_cols d) [''created_at''] then Inl OperationalError
      else Inr (length (filter (\<lambda>v. v_vehicle_id v = vid) (vehicles d)),
                d\<lparr>vehicles :=
                    map (\<lambda>v. if v_vehicle_id v = vid
                             then v\<lparr>v_model := Some model, v_owner := Some owner,
                                    v_registration := Some registration,
                                    v_accident_details := Some details,
                                    v_created_at := Some now\<rparr>
                             else v) (vehicles d)\<rparr>))"

subsection \<open>Statements on table \<open>accident_events\<close>\<close>

definition append_event :: "event \<Rightarrow> db \<Rightarrow> error + nat \<times> db" where
  "append_event row d =
     (case next_rowid (ev_seq d) (map e_id (accident_events d)) of
        Inl e \<Rightarrow> Inl e
      | Inr rid \<Rightarrow>
          Inr (1, d\<lparr>accident_events := accident_events d @ [row\<lparr>e_id := rid\<rparr>],
                    ev_seq := rid\<rparr>))"

text \<open>
  \<open>INSERT INTO accident_events (vehicle_id,intensity,lat,lng,timestamp,raw_payload)
  VALUES (?, ?, ?, ?, ?, ?)\<close> of \<open>hardware_event\<close>.
\<close>

definition insert_event_hw ::
    "string \<Rightarrow> string \<Rightarrow> string \<Rightarrow> hw_payload \<Rightarrow> db \<Rightarrow> error + nat \<times> db" where
  "insert_event_hw now vid ts data d =
     (if \<not> has_cols (ev_cols d) [''intensity'', ''lat'', ''lng'', ''timestamp'', ''raw_payload'']
      then Inl OperationalError
      else append_event
             \<lparr>e_id = 0, e_vehicle_id = vid, e_intensity = p_intensity data,
              e_lat = p_lat data, e_lng = p_lng data, e_timestamp = Some ts,
              e_raw_payload = Some data,
              e_created_at = default_ts (ev_cols d) ''created_at'' now,
              e_event_time = default_ts (ev_cols d) ''event_time'' now,
              e_details = None, e_meta_json = None\<rparr> d)"

text \<open>
  \<open>INSERT INTO accident_events (vehicle_id, details, meta_json) VALUES (?, ?, ?)\<close> of
  \<open>Dev_app.add_vehicle\<close>.
\<close>

definition insert_event_dev ::
    "string \<Rightarrow> string \<Rightarrow> string \<Rightarrow> string option \<Rightarrow> db \<Rightarrow> error + nat \<times> db" where
  "insert_event_dev now vid details meta_json d =
     (if \<not> has_cols (ev_cols d) [''details'', ''meta_json''] then Inl OperationalError
      else append_event
             \<lparr>e_id = 0, e_vehicle_id = vid, e_intensity = None, e_lat = None, e_lng = None,
              e_timestamp = None, e_raw_payload = None,
              e_created_at = default_ts (ev_cols d) ''created_at'' now,
              e_event_time = default_ts (ev_cols d) ''event_time'' now,
              e_details = Some details, e_meta_json = meta_json\<rparr> d)"

section \<open>The in-memory publish/subscribe hub\<close>

text \<open>
  A message on a queue: the object \<open>hardware_event\<close> serialises with \<open>json.dumps\<close> before it
  publishes.
\<close>

record sse_event =
  m_type :: string
  m_vehicleID :: string
  m_intensity :: "string option"
  m_lat :: "string option"
  m_lng :: "string option"
  m_timestamp :: string
  m_notes :: string

text \<open>
  The state of the process and its database. A queue is a Python list object that the hub's
  dictionary and a stream session share, so it lives in a heap under a reference;
  \<open>subscribers\<close> is \<open>_sse_subscribers\<close>, from the reference string to the list of queue
  references. \<open>next_ref\<close> is the reference of the next object created.
\<close>

record world =
  store :: db
  subscribers :: "string \<Rightarrow> nat list option"
  heap :: "nat \<Rightarrow> sse_event list"
  next_ref :: nat

definition sse_subscribe :: "world \<Rightarrow> string \<Rightarrow> world \<times> nat" where
  "sse_subscribe w vehicle_id =
     (let q = next_ref w;
          arr = (case subscribers w vehicle_id of None \<Rightarrow> [] | Some a \<Rightarrow> a)
      in (w\<lparr>heap := (heap w)(q := []),
            subscribers := (subscribers w)(vehicle_id \<mapsto> arr @ [q]),
            next_ref := Suc q\<rparr>, q))"

text \<open>
  Python compares list elements with \<open>==\<close> after the identity test: \<open>q in arr\<close> and
  \<open>arr.remove(q)\<close> take the first element that is \<open>q\<close> or a list equal to \<open>q\<close>.
\<close>

definition py_eq :: "(nat \<Rightarrow> sse_event list) \<Rightarrow> nat \<Rightarrow> nat \<Rightarrow> bool" where
  "py_eq h a b \<longleftrightarrow> a = b \<or> h a = h b"

fun py_remove :: "(nat \<Rightarrow> sse_event list) \<Rightarrow> nat list \<Rightarrow> nat \<Rightarrow> nat list" where
  "py_remove h [] q = []"
| "py_remove h (a # arr) q = (if py_eq h a q then arr else a # py_remove h arr q)"

definition sse_unsubscribe :: "world \<Rightarrow> string \<Rightarrow> nat \<Rightarrow> world" where
  "sse_unsubscribe w vehicle_id q =
     (case subscribers w vehicle_id of
        None \<Rightarrow> w
      | Some arr \<Rightarrow>
          if arr \<noteq> [] \<and> (\<exists>a \<in> set arr. py_eq (heap w) a q)
          then w\<lparr>subscribers := (subscribers w)(vehicle_id \<mapsto> py_remove (heap w) arr q)\<rparr>
          else w)"

definition sse_publish :: "world \<Rightarrow> string \<Rightarrow> sse_event \<Rightarrow> world" where
  "sse_publish w vehicle_id payload =
     (let arr = (case subscribers w vehicle_id of None \<Rightarrow> [] | Some a \<Rightarrow> a)
      in w\<lparr>heap := fold (\<lambda>q h. h(q := h q @ [payload])) arr (heap w)\<rparr>)"

section \<open>Live stream sessions\<close>

text \<open>
  A frame the generator \<open>event_stream\<close> yields: the acknowledgement
  \<open>{"type": "connected", "vehicleID": vid}\<close>, a queued message, or the keep-alive \<open>{}\<close>.
\<close>

datatype frame = Connected string | Data sse_event | Heartbeat

text \<open>
  The generator is created by \<open>stream_vehicle\<close> and has not run (\<open>Created\<close>), or it is
  suspended at a \<open>yield\<close> inside the \<open>try\<close> with the value of \<open>idle_counter\<close>, or it is
  closed.
\<close>

datatype gen_state = Created | Suspended nat | Closed

record session =
  s_vid :: string
  s_q :: nat
  s_gen :: gen_state

definition stream_vehicle :: "world \<Rightarrow> string \<Rightarrow> world \<times> session" where
  "stream_vehicle w vid =
     (let (w', q) = sse_subscribe w vid in (w', \<lparr>s_vid = vid, s_q = q, s_gen = Created\<rparr>))"

text \<open>
  One turn of the generator: the first \<open>yield\<close>, or one pass through the \<open>while True\<close> loop.
  A pass pops and yields the head of the queue, or sleeps a second and yields the keep-alive
  on every tenth idle pass; between two passes other requests may run.
\<close>

definition session_step :: "world \<Rightarrow> session \<Rightarrow> world \<times> session \<times> frame option" where
  "session_step w s =
     (case s_gen s of
        Created \<Rightarrow> (w, s\<lparr>s_gen := Suspended 0\<rparr>, Some (Connected (s_vid s)))
      | Suspended idle_counter \<Rightarrow>
          (case heap w (s_q s) of
             item # rest \<Rightarrow> (w\<lparr>heap := (heap w)(s_q s := rest)\<rparr>, s, Some (Data item))
           | [] \<Rightarrow>
               if Suc idle_counter \<ge> 10 then (w, s\<lparr>s_gen := Suspended 0\<rparr>, Some Heartbeat)
               else (w, s\<lparr>s_gen := Suspended (Suc idle_counter)\<rparr>, None))
      | Closed \<Rightarrow> (w, s, None))"

text \<open>
  Closing the generator (the client went away, a write failed): \<open>GeneratorExit\<close> is raised
  at the \<open>yield\<close> where it is suspended and the \<open>finally\<close> clause runs. A generator that has
  not run has not entered the \<open>try\<close>.
\<close>

definition session_close :: "world \<Rightarrow> session \<Rightarrow> world \<times> session" where
  "session_close w s =
     (case s_gen s of
        Created \<Rightarrow> (w, s\<lparr>s_gen := Closed\<rparr>)
      | Suspended _ \<Rightarrow> (sse_unsubscribe w (s_vid s) (s_q s), s\<lparr>s_gen := Closed\<rparr>)
      | Closed \<Rightarrow> (w, s))"

section \<open>Requests and responses\<close>

text \<open>
  \<open>request.get_json()\<close>: the body has another content type, does not parse, or parses to
  the object given. An object is read with \<open>get\<close>, so its fields are given as what \<open>get\<close>
  returns.
\<close>

datatype 'a json_body = WrongMimetype | Malformed | Parsed 'a

text \<open>A key of a JSON object that holds a string when it is there and not null.\<close>

datatype jfield = Absent | Null | Str string

text \<open>\<open>data.get(key)\<close> and \<open>data.get(key, default)\<close>.\<close>

definition jget :: "jfield \<Rightarrow> string option" where
  "jget f = (case f of Absent \<Rightarrow> None | Null \<Rightarrow> None | Str s \<Rightarrow> Some s)"

definition jget_default :: "jfield \<Rightarrow> string \<Rightarrow> string option" where
  "jget_default f dflt = (case f of Absent \<Rightarrow> Some dflt | Null \<Rightarrow> None | Str s \<Rightarrow> Some s)"

text \<open>Python's \<open>a or b\<close> on values that are a string or \<open>None\<close>.\<close>

definition py_or :: "string option \<Rightarrow> string option \<Rightarrow> string option" where
  "py_or a b = (case a of None \<Rightarrow> b | Some s \<Rightarrow> if s \<noteq> [] then Some s else b)"

definition py_or_str :: "string option \<Rightarrow> string \<Rightarrow> string" where
  "py_or_str a dflt = (case a of None \<Rightarrow> dflt | Some s \<Rightarrow> if s \<noteq> [] then s else dflt)"

text \<open>The value of a key of a response's JSON object.\<close>

record vehicle_out =
  o_id :: int
  o_vehicle_id :: string
  o_model :: "string option"
  o_owner :: "string option"
  o_registration :: "string option"
  o_accidentDetails :: string

datatype jv = JBool bool | JStr string | JRow vehicle | JVehicleOut vehicle_out

record response =
  status :: nat
  body :: "(string \<times> jv) list"

text \<open>What Flask answers when a view raises, and when \<open>get_json\<close> aborts.\<close>

definition server_error :: response where
  "server_error = \<lparr>status = 500, body = []\<rparr>"

definition http_abort :: "nat \<Rightarrow> response" where
  "http_abort code = \<lparr>status = code, body = []\<rparr>"

section \<open>The endpoints of \<open>User_app.py\<close>\<close>

subsection \<open>\<open>POST /hardware/event\<close>\<close>

record hw_request =
  header_api_key :: "string option"
  arg_api_key :: "string option"
  hw_body :: "hw_payload json_body"

text \<open>
  The statements of \<open>hardware_event\<close> from \<open>cur.execute("BEGIN")\<close> to \<open>db.commit()\<close>.
  \<open>rowcount\<close> is \<open>cur.rowcount\<close>, which the second test reads after whichever \<open>UPDATE\<close> ran
  last.
\<close>

definition hw_transaction :: "env \<Rightarrow> string \<Rightarrow> string \<Rightarrow> string \<Rightarrow> hw_payload \<Rightarrow> unit io" where
  "hw_transaction env vid notes ts data =
     io_bind (sql_begin env HW_begin) (\<lambda>_.
     io_bind (sql_execute env HW_insert_event (insert_event_hw (sql_now env) vid ts data)) (\<lambda>_.
     io_bind (sql_execute env HW_update_by_vehicle_id
                (update_summary_by_vehicle_id (sql_now env) notes vid)) (\<lambda>rowcount.
     io_bind (if rowcount = 0
              then (case py_int vid of
                      None \<Rightarrow> io_return rowcount
                    | Some iid \<Rightarrow>
                        sql_execute env HW_update_by_id
                          (update_summary_by_id (sql_now env) notes iid))
              else io_return rowcount) (\<lambda>rowcount.
     io_bind (if rowcount = 0
              then sql_execute env HW_insert_vehicle
                     (insert_minimal_vehicle (sql_now env) vid notes)
              else io_return rowcount) (\<lambda>_.
     sql_commit env HW_commit)))))"

text \<open>
  The local variables \<open>vid_raw\<close>, \<open>ts\<close> and \<open>notes\<close> of the view:
  \<open>data.get("vehicleID") if data.get("vehicleID") is not None else data.get("vehicle_id")\<close>,
  \<open>data.get("timestamp") or datetime.utcnow().isoformat()\<close> and
  \<open>data.get("notes") or data.get("accidentDetails") or ""\<close>.
\<close>

definition hw_vid_raw :: "hw_payload \<Rightarrow> string option" where
  "hw_vid_raw data = (case p_vehicleID data of Some x \<Rightarrow> Some x | None \<Rightarrow> p_vehicle_id data)"

definition hw_ts :: "env \<Rightarrow> hw_payload \<Rightarrow> string" where
  "hw_ts env data = py_or_str (p_timestamp data) (utc_now env)"

definition hw_notes :: "hw_payload \<Rightarrow> string" where
  "hw_notes data = py_or_str (py_or (p_notes data) (p_accidentDetails data)) []"

text \<open>
  The view. An exception leaves it as Flask's answer 500; in either case the teardown
  handler \<open>close_connection\<close> closes the connection of the request.
\<close>

definition hardware_event :: "env \<Rightarrow> world \<Rightarrow> hw_request \<Rightarrow> world \<times> response" where
  "hardware_event env w req =
     (let key = py_or (header_api_key req) (arg_api_key req) in
      if key \<noteq> Some (hw_api_key env)
      then (w, \<lparr>status = 401,
                body = [(''success'', JBool False), (''message'', JStr ''unauthorized'')]\<rparr>)
      else
        (case hw_body req of
           WrongMimetype \<Rightarrow> (w, http_abort 415)
         | Malformed \<Rightarrow> (w, http_abort 400)
         | Parsed data \<Rightarrow>
             (case hw_vid_raw data of
                None \<Rightarrow>
                  (w, \<lparr>status = 400,
                       body = [(''success'', JBool False),
                               (''message'', JStr ''vehicleID required'')]\<rparr>)
              | Some vid_raw \<Rightarrow>
                  (let vid = py_strip vid_raw;
                       intensity = p_intensity data;
                       lat = p_lat data;
                       lng = p_lng data;
                       ts = hw_ts env data;
                       notes = hw_notes data;
                       (r, c) = hw_transaction env vid notes ts data (connect (store w))
                   in case r of
                        Inl e \<Rightarrow> (w\<lparr>store := sql_close c\<rparr>, server_error)
                      | Inr _ \<Rightarrow>
                          if publish_fails env then (w\<lparr>store := sql_close c\<rparr>, server_error)
                          else
                            (let payload =
                                   \<lparr>m_type = ''accident_event'', m_vehicleID = vid,
                                    m_intensity = intensity, m_lat = lat, m_lng = lng,
                                    m_timestamp = ts, m_notes = notes\<rparr>;
                                 w1 = sse_publish w vid payload
                             in (w1\<lparr>store := sql_close c\<rparr>,
                                 \<lparr>status = 201, body = [(''success'', JBool True)]\<rparr>))))))"

subsection \<open>\<open>POST /add_vehicle\<close>\<close>

record user_vehicle_payload =
  uv_vehicle_id :: jfield
  uv_id :: jfield
  uv_model :: jfield
  uv_owner :: jfield
  uv_registration :: jfield

definition user_add_vehicle ::
    "env \<Rightarrow> world \<Rightarrow> user_vehicle_payload json_body \<Rightarrow> world \<times> response" where
  "user_add_vehicle env w req =
     (case req of
        WrongMimetype \<Rightarrow> (w, http_abort 415)
      | Malformed \<Rightarrow> (w, http_abort 400)
      | Parsed data \<Rightarrow>
          (let vid_raw = (case jget (uv_vehicle_id data) of
                            Some x \<Rightarrow> Some x
                          | None \<Rightarrow> jget (uv_id data));
               vid = (case vid_raw of Some x \<Rightarrow> py_strip x | None \<Rightarrow> [])
           in if vid = []
              then (w, \<lparr>status = 400,
                        body = [(''success'', JBool False),
                                (''message'', JStr ''vehicle id required'')]\<rparr>)
              else
                (let model = jget_default (uv_model data) [];
                     owner = jget_default (uv_owner data) [];
                     registration = jget_default (uv_registration data) [];
                     (r, c) =
                       io_bind (sql_execute env User_upsert
                                  (upsert_vehicle (sql_now env) vid model owner registration))
                         (\<lambda>_. sql_commit env User_commit) (connect (store w))
                 in case r of
                      Inl e \<Rightarrow> (w\<lparr>store := sql_close c\<rparr>, server_error)
                    | Inr _ \<Rightarrow>
                        (w\<lparr>store := sql_close c\<rparr>,
                         \<lparr>status = 201,
                          body = [(''success'', JBool True),
                                  (''message'', JStr ''vehicle added/updated''),
                                  (''vehicle_id'', JStr vid)]\<rparr>))))"

subsection \<open>\<open>GET /vehicle/<vid>\<close>\<close>

definition get_vehicle :: "world \<Rightarrow> string \<Rightarrow> world \<times> response" where
  "get_vehicle w vid =
     (case find_vehicle_by_identifier (store w) (Some vid) of
        Inl e \<Rightarrow> (w, server_error)
      | Inr None \<Rightarrow>
          (w, \<lparr>status = 404,
               body = [(''found'', JBool False), (''message'', JStr ''Vehicle not found'')]\<rparr>)
      | Inr (Some (row, used)) \<Rightarrow>
          (w, \<lparr>status = 200, body = [(''found'', JBool True), (''vehicle'', JRow row)]\<rparr>))"

subsection \<open>\<open>POST /validateID\<close>\<close>

text \<open>
  \<open>request.get_json(silent=True) or {}\<close>: \<open>None\<close> is a body that is not JSON. The answer for
  a vehicle that is found also lists its recent events, read with a \<open>SELECT\<close> over the
  columns \<open>intensity\<close>, \<open>lat\<close>, \<open>lng\<close>, \<open>timestamp\<close> and \<open>created_at\<close> of \<open>accident_events\<close>;
  the model keeps that the query can fail and leaves the list out of the body.
\<close>

record validate_payload =
  vp_vehicleID :: "string option"
  vp_vehicle_id :: "string option"

definition validate_id :: "world \<Rightarrow> validate_payload option \<Rightarrow> world \<times> response" where
  "validate_id w req =
     (let vid_raw = (case req of
                       None \<Rightarrow> []
                     | Some data \<Rightarrow> py_or_str (py_or (vp_vehicleID data) (vp_vehicle_id data)) []);
          vid = py_strip vid_raw
      in if vid = []
         then (w, \<lparr>status = 400,
                   body = [(''valid'', JBool False), (''message'', JStr ''vehicleID required'')]\<rparr>)
         else
           (case find_vehicle_by_identifier (store w) (Some vid) of
              Inl e \<Rightarrow> (w, server_error)
            | Inr None \<Rightarrow>
                (w, \<lparr>status = 200,
                     body = [(''valid'', JBool False),
                             (''message'', JStr ''vehicle not found'')]\<rparr>)
            | Inr (Some (vehicle, used)) \<Rightarrow>
                (let vehicle_out =
                       \<lparr>o_id = v_id vehicle, o_vehicle_id = v_vehicle_id vehicle,
                        o_model = v_model vehicle, o_owner = v_owner vehicle,
                        o_registration = v_registration vehicle,
                        o_accidentDetails =
                          py_or_str (v_accident_details vehicle)
                            ''No recent accidents reported.''\<rparr>
                 in if \<not> has_cols (ev_cols (store w))
                            [''intensity'', ''lat'', ''lng'', ''timestamp'', ''created_at'']
                    then (w, server_error)
                    else (w, \<lparr>status = 200,
                              body = [(''valid'', JBool True),
                                      (''vehicle'', JVehicleOut vehicle_out)]\<rparr>))))"

section \<open>\<open>POST /add_vehicle\<close> of \<open>Dev_app.py\<close>\<close>

datatype http_method = POST | OPTIONS

text \<open>
  \<open>dv_json\<close> is what \<open>request.get_json()\<close> returns: \<open>None\<close> stands for a body that does not
  parse to a JSON object, where the view raises inside its outer \<open>try\<close>. \<open>dp_meta\<close> is the
  JSON text of key \<open>meta\<close>.
\<close>

record dev_payload =
  dp_vehicle_id :: "string option"
  dp_model :: "string option"
  dp_owner :: "string option"
  dp_registration :: "string option"
  dp_accident_details :: "string option"
  dp_meta :: "string option"

record dev_request =
  dv_method :: http_method
  dv_is_json :: bool
  dv_json :: "dev_payload option"

text \<open>
  The truth value of a \<open>sqlite3.Row\<close> is that of its length, the number of selected
  columns.
\<close>

definition row_bool :: "nat \<Rightarrow> bool" where
  "row_bool ncols \<longleftrightarrow> ncols \<noteq> 0"

text \<open>The statements inside the inner \<open>try\<close>; the result is \<open>action\<close>.\<close>

definition dev_transaction ::
    "env \<Rightarrow> string \<Rightarrow> string \<Rightarrow> string \<Rightarrow> string \<Rightarrow> string \<Rightarrow> string option \<Rightarrow> string io" where
  "dev_transaction env vehicle_id model owner registration accident_details meta_json =
     io_bind (sql_execute env Dev_insert_or_ignore
                (insert_or_ignore_vehicle (sql_now env) vehicle_id model owner registration
                   accident_details)) (\<lambda>_.
     io_bind (sql_query env Dev_select (select_existing_vehicle vehicle_id)) (\<lambda>existing.
     io_bind (case existing of
                None \<Rightarrow> io_return ''created''
              | Some row \<Rightarrow>
                  io_bind (sql_execute env Dev_update
                             (update_vehicle_dev (sql_now env) vehicle_id model owner
                                registration accident_details))
                    (\<lambda>_. io_return (if row_bool 6 then ''updated'' else ''created''))) (\<lambda>action.
     io_bind (sql_execute env Dev_insert_event
                (insert_event_dev (sql_now env) vehicle_id accident_details meta_json)) (\<lambda>_.
     io_bind (sql_commit env Dev_commit) (\<lambda>_.
     io_return action)))))"

definition dev_server_error :: response where
  "dev_server_error =
     \<lparr>status = 500, body = [(''success'', JBool False), (''message'', JStr ''Server error'')]\<rparr>"

definition dev_add_vehicle :: "env \<Rightarrow> world \<Rightarrow> dev_request \<Rightarrow> world \<times> response" where
  "dev_add_vehicle env w req =
     (if dv_method req = OPTIONS
      then (w, \<lparr>status = 200,
                body = [(''success'', JBool True), (''message'', JStr ''ok (preflight)'')]\<rparr>)
      else if \<not> dv_is_json req
      then (w, \<lparr>status = 400,
                body = [(''success'', JBool False),
                        (''message'', JStr ''Expected application/json'')]\<rparr>)
      else
        (case dv_json req of
           None \<Rightarrow> (w, dev_server_error)
         | Some data \<Rightarrow>
             (let vehicle_id = py_strip (py_or_str (dp_vehicle_id data) []);
                  model = py_strip (py_or_str (dp_model data) []);
                  owner = py_strip (py_or_str (dp_owner data) []);
                  registration = py_strip (py_or_str (dp_registration data) []);
                  accident_details = py_strip (py_or_str (dp_accident_details data) []);
                  meta_json = dp_meta data
              in if vehicle_id = []
                 then (w, \<lparr>status = 400,
                           body = [(''success'', JBool False),
                                   (''message'', JStr ''vehicle_id is required'')]\<rparr>)
                 else
                   (let (r, c) =
                          dev_transaction env vehicle_id model owner registration
                            accident_details meta_json (connect (store w))
                    in case r of
                         Inl e \<Rightarrow> (w\<lparr>store := sql_close (sql_rollback c)\<rparr>, dev_server_error)
                       | Inr action \<Rightarrow>
                           (w\<lparr>store := sql_close c\<rparr>,
                            \<lparr>status = (if action = ''created'' then 201 else 200),
                             body = [(''success'', JBool True),
                                     (''message'', JStr (''Vehicle '' @ action)),
                                     (''action'', JStr action),
                                     (''vehicle_id'', JStr vehicle_id)]\<rparr>)))))"

section \<open>Example states\<close>

text \<open>Concrete databases and requests on which the theorems below are instantiated.\<close>

definition demo_vehicle :: "int \<Rightarrow> string \<Rightarrow> vehicle" where
  "demo_vehicle k a =
     \<lparr>v_id = k, v_vehicle_id = a, v_model = None, v_owner = None, v_registration = None,
      v_accident_details = None, v_created_at = None, v_updated_at = None\<rparr>"

text \<open>
  A database whose tables have every column the statements of \<open>User_app.py\<close> name, with
  two vehicles; the alias of the second is the decimal form of the key of the first.
\<close>

definition demo_db :: db where
  "demo_db =
     \<lparr>vehicles = [demo_vehicle 1 ''VHL2023'', demo_vehicle 2 ''1''], veh_seq = 2,
      veh_cols = [''created_at'', ''updated_at''],
      accident_events = [], ev_seq = 0,
      ev_cols = [''intensity'', ''lat'', ''lng'', ''timestamp'', ''raw_payload'', ''created_at'']\<rparr>"

definition demo_world :: world where
  "demo_world = \<lparr>store = demo_db, subscribers = Map.empty, heap = (\<lambda>_. []), next_ref = 0\<rparr>"

text \<open>
  A vehicle whose alias is the empty string, as \<open>hardware_event\<close> inserts it for a request
  whose identifier is empty or blank.
\<close>

definition blank_db :: db where
  "blank_db =
     \<lparr>vehicles = [demo_vehicle 1 []], veh_seq = 1,
      veh_cols = [''created_at'', ''updated_at''],
      accident_events = [], ev_seq = 0,
      ev_cols = [''intensity'', ''lat'', ''lng'', ''timestamp'', ''raw_payload'', ''created_at'']\<rparr>"

text \<open>A clock, the default API key, and a storage engine and a hub that do not fail.\<close>

definition demo_env :: env where
  "demo_env =
     \<lparr>sql_now = ''2025-06-01 12:00:00'', utc_now = ''2025-06-01T12:00:00'',
      hw_api_key = ''REPLACE_WITH_STRONG_KEY'', storage_fails = (\<lambda>_. False),
      publish_fails = False\<rparr>"

text \<open>
  The empty database as \<open>Dev_app.init_db\<close> leaves it, and a first request for a vehicle
  it has never seen.
\<close>

definition dev_db0 :: db where
  "dev_db0 =
     \<lparr>vehicles = [], veh_seq = 0, veh_cols = [''created_at''],
      accident_events = [], ev_seq = 0, ev_cols = [''event_time'', ''details'', ''meta_json'']\<rparr>"

definition dev_world0 :: world where
  "dev_world0 = \<lparr>store = dev_db0, subscribers = Map.empty, heap = (\<lambda>_. []), next_ref = 0\<rparr>"

definition dev_req1 :: dev_request where
  "dev_req1 =
     \<lparr>dv_method = POST, dv_is_json = True,
      dv_json = Some \<lparr>dp_vehicle_id = Some ''NEWCAR1'', dp_model = Some ''Audi A3'',
                      dp_owner = None, dp_registration = None,
                      dp_accident_details = Some ''rear collision'', dp_meta = None\<rparr>\<rparr>"

text \<open>
  A database created by \<open>db_init.py\<close> and migrated by \<open>Dev_app.init_db\<close>, holding one
  registered vehicle, and a request of each application that registers the alias again.
\<close>

definition reg_vehicle :: vehicle where
  "reg_vehicle =
     \<lparr>v_id = 1, v_vehicle_id = ''VHL2023'', v_model = Some ''Audi A3'',
      v_owner = Some ''Aravindhan'', v_registration = Some ''TN-09-AB-0009'',
      v_accident_details = Some ''No recent accidents reported.'',
      v_created_at = Some ''2025-01-01 00:00:00'', v_updated_at = None\<rparr>"

definition reg_world :: world where
  "reg_world =
     \<lparr>store = \<lparr>vehicles = [reg_vehicle], veh_seq = 1, veh_cols = [''created_at''],
               accident_events = [], ev_seq = 0,
               ev_cols = [''intensity'', ''lat'', ''lng'', ''timestamp'', ''raw_payload'',
                          ''created_at'', ''details'', ''meta_json'']\<rparr>,
      subscribers = Map.empty, heap = (\<lambda>_. []), next_ref = 0\<rparr>"

definition dev_req2 :: dev_request where
  "dev_req2 =
     \<lparr>dv_method = POST, dv_is_json = True,
      dv_json = Some \<lparr>dp_vehicle_id = Some ''VHL2023'', dp_model = Some ''Audi A4'',
                      dp_owner = Some ''John Doe'', dp_registration = Some ''TN-01-XY-0001'',
                      dp_accident_details = Some ''rear collision'', dp_meta = None\<rparr>\<rparr>"

definition user_req2 :: "user_vehicle_payload json_body" where
  "user_req2 =
     Parsed \<lparr>uv_vehicle_id = Str ''VHL2023'', uv_id = Absent, uv_model = Str ''Audi A4'',
             uv_owner = Str ''John Doe'', uv_registration = Str ''TN-01-XY-0001''\<rparr>"

text \<open>A process with no subscriber, and a message.\<close>

definition hub0 :: world where
  "hub0 = \<lparr>store = demo_db, subscribers = Map.empty, heap = (\<lambda>_. []), next_ref = 0\<rparr>"

definition demo_event :: sse_event where
  "demo_event =
     \<lparr>m_type = ''accident_event'', m_vehicleID = ''VHL2023'', m_intensity = Some ''4.5'',
      m_lat = Some ''12.34'', m_lng = Some ''56.78'', m_timestamp = ''2025-06-01T12:00:00'',
      m_notes = ''rear collision''\<rparr>"

text \<open>
  Three subscribers: one under the key \<open>1\<close> of vehicle \<open>VHL2023\<close>, two under its alias.
\<close>

definition hub3 :: world where
  "hub3 = fst (sse_subscribe (fst (sse_subscribe (fst (sse_subscribe hub0 ''1'')) ''VHL2023''))
                 ''VHL2023'')"

text \<open>
  Two stream sessions for \<open>VHL2023\<close>, both opened and acknowledged, their queues empty;
  then the second session is closed.
\<close>

definition two_sessions :: "world \<times> session \<times> session" where
  "two_sessions =
     (let (w1, a0) = stream_vehicle hub0 ''VHL2023'';
          (w2, a1, _) = session_step w1 a0;
          (w3, b0) = stream_vehicle w2 ''VHL2023'';
          (w4, b1, _) = session_step w3 b0
      in (w4, a1, b1))"

definition second_closed :: "world \<times> session \<times> session" where
  "second_closed =
     (let (w, a, b) = two_sessions; (w', b') = session_close w b in (w', a, b'))"

text \<open>
  A database whose tables have the columns that the statements of \<open>hardware_event\<close> name,
  holding the demo vehicle of \<open>db_init.py\<close>, and hardware requests: by alias, by key, with
  white space around the identifier, and for a vehicle not seen before.
\<close>

definition hw_world :: world where
  "hw_world =
     \<lparr>store = \<lparr>vehicles = [reg_vehicle], veh_seq = 1,
               veh_cols = [''created_at'', ''updated_at''],
               accident_events = [], ev_seq = 0,
               ev_cols = [''intensity'', ''lat'', ''lng'', ''timestamp'', ''raw_payload'',
                          ''created_at'']\<rparr>,
      subscribers = [''VHL2023'' \<mapsto> [0]], heap = (\<lambda>_. []), next_ref = 1\<rparr>"

definition hw_data :: "string \<Rightarrow> string \<Rightarrow> hw_payload" where
  "hw_data ident notes =
     \<lparr>p_vehicleID = Some ident, p_vehicle_id = None, p_intensity = Some ''4.5'',
      p_lat = Some ''12.34'', p_lng = Some ''56.78'', p_timestamp = None,
      p_notes = Some notes, p_accidentDetails = None\<rparr>"

definition hw_req :: "string \<Rightarrow> string \<Rightarrow> hw_request" where
  "hw_req ident notes =
     \<lparr>header_api_key = Some ''REPLACE_WITH_STRONG_KEY'', arg_api_key = None,
      hw_body = Parsed (hw_data ident notes)\<rparr>"

text \<open>The same environment with a storage engine that fails the first \<open>UPDATE\<close>.\<close>

definition failing_env :: env where
  "failing_env = demo_env\<lparr>storage_fails := (\<lambda>s. s = HW_update_by_vehicle_id)\<rparr>"

text \<open>
  The table \<open>vehicles\<close> as the three \<open>CREATE TABLE\<close> statements of the repository and the
  migration of \<open>Dev_app.py\<close> leave it: without column \<open>updated_at\<close>.
\<close>

definition repo_world :: world where
  "repo_world =
     \<lparr>store = \<lparr>vehicles = [reg_vehicle], veh_seq = 1, veh_cols = [''created_at''],
               accident_events = [], ev_seq = 0,
               ev_cols = [''intensity'', ''lat'', ''lng'', ''timestamp'', ''raw_payload'',
                          ''created_at'']\<rparr>,
      subscribers = [''VHL2023'' \<mapsto> [0]], heap = (\<lambda>_. []), next_ref = 1\<rparr>"

text \<open>Two ingestions for the same vehicle, the first by alias and the second by key.\<close>

definition demo_run :: "(env \<times> hw_request) list" where
  "demo_run =
     [(demo_env, hw_req ''VHL2023'' ''rear collision''), (demo_env, hw_req '' 1 '' ''side impact'')]"

section \<open>Predicates of the statements\<close>

text \<open>A string of decimal digits.\<close>

definition is_digits :: "string \<Rightarrow> bool" where
  "is_digits ds \<longleftrightarrow> (\<forall>c \<in> set ds. \<exists>d < 10. c = digit_char d)"

text \<open>
  What SQLite enforces on table \<open>vehicles\<close> under every schema of the repository:
  \<open>id INTEGER PRIMARY KEY\<close> (unique 64-bit keys) and \<open>vehicle_id TEXT UNIQUE\<close>.
\<close>

definition db_constraints :: "db \<Rightarrow> bool" where
  "db_constraints d \<longleftrightarrow>
     distinct (map v_id (vehicles d)) \<and> distinct (map v_vehicle_id (vehicles d))
     \<and> (\<forall>v \<in> set (vehicles d). i64_min \<le> v_id v \<and> v_id v \<le> i64_max)"

text \<open>No other vehicle's alias is the decimal form of the key of \<open>v\<close>.\<close>

definition no_alias_clash :: "db \<Rightarrow> vehicle \<Rightarrow> bool" where
  "no_alias_clash d v \<longleftrightarrow>
     (\<forall>u \<in> set (vehicles d). v_vehicle_id u = py_str_int (v_id v) \<longrightarrow> u = v)"

text \<open>The queues registered under a reference string: \<open>_sse_subscribers.get(ref, [])\<close>.\<close>

definition registered :: "world \<Rightarrow> string \<Rightarrow> nat list" where
  "registered w vid = (case subscribers w vid of None \<Rightarrow> [] | Some arr \<Rightarrow> arr)"

text \<open>
  The shape of the hub in every state the program reaches: \<open>sse_subscribe\<close> registers a
  new list object each time, so no queue is registered twice, no queue is registered under
  two reference strings, and every registered queue has been created.
\<close>

definition hub_ok :: "world \<Rightarrow> bool" where
  "hub_ok w \<longleftrightarrow>
     (\<forall>vid. distinct (registered w vid))
     \<and> (\<forall>vid vid' q. q \<in> set (registered w vid) \<and> q \<in> set (registered w vid') \<longrightarrow> vid = vid')
     \<and> (\<forall>vid. \<forall>q \<in> set (registered w vid). q < next_ref w)"

text \<open>
  The rows an ingestion for identifier \<open>vid\<close> addresses, by the \<open>WHERE\<close> clauses of
  \<open>hardware_event\<close>: the rows whose alias is \<open>vid\<close>, or, when there is none, the rows whose
  key is the integer that \<open>vid\<close> spells.
\<close>

definition hw_targets :: "db \<Rightarrow> string \<Rightarrow> vehicle \<Rightarrow> bool" where
  "hw_targets d vid v \<longleftrightarrow>
     v \<in> set (vehicles d)
     \<and> (v_vehicle_id v = vid
        \<or> (\<not> (\<exists>u \<in> set (vehicles d). v_vehicle_id u = vid) \<and> py_int vid = Some (v_id v)))"

text \<open>Requests to \<open>/hardware/event\<close> served one after the other.\<close>

fun run_hw :: "world \<Rightarrow> (env \<times> hw_request) list \<Rightarrow> world \<times> response list" where
  "run_hw w [] = (w, [])"
| "run_hw w ((env, req) # rest) =
     (let (w1, r) = hardware_event env w req; (w2, rs) = run_hw w1 rest in (w2, r # rs))"

text \<open>The state in which the last request of a non-empty run is served.\<close>

definition hw_before_last :: "world \<Rightarrow> (env \<times> hw_request) list \<Rightarrow> world" where
  "hw_before_last w rs = fst (run_hw w (butlast rs))"

section \<open>Facts about strings and integers\<close>

lemma digit_val_digit_char: "d < 10 \<Longrightarrow> digit_val (digit_char d) = Some d"
  by (simp add: digit_val_def digit_char_def Let_def)

lemma digit_char_neq:
  assumes "d < 10"
  shows "digit_char d \<noteq> CHR ''_''" and "digit_char d \<noteq> CHR ''-''" and "digit_char d \<noteq> CHR ''+''"
    and "\<not> py_isspace (digit_char d)"
proof -
  have v: "digit_val (digit_char d) = Some d" using assms by (rule digit_val_digit_char)
  show "digit_char d \<noteq> CHR ''_''" using v by (auto simp: digit_val_def)
  show "digit_char d \<noteq> CHR ''-''" using v by (auto simp: digit_val_def)
  show "digit_char d \<noteq> CHR ''+''" using v by (auto simp: digit_val_def)
  show "\<not> py_isspace (digit_char d)" using v by (auto simp: digit_val_def py_isspace_def)
qed

lemma is_digits_digits_of: "is_digits (digits_of n)"
proof (induction n rule: digits_of.induct)
  case (1 n)
  show ?case
  proof (cases "n < 10")
    case True
    then show ?thesis by (subst digits_of.simps) (auto simp: is_digits_def)
  next
    case False
    have "\<exists>d<10. digit_char (n mod 10) = digit_char d"
      by (rule exI [of _ "n mod 10"]) simp
    with False 1 show ?thesis
      by (subst digits_of.simps) (auto simp: is_digits_def)
  qed
qed

lemma digits_of_nonempty: "digits_of n \<noteq> []"
  by (subst digits_of.simps) simp

lemma parse_digits_digits:
  "is_digits ds \<Longrightarrow> ds \<noteq> [] \<or> prev \<Longrightarrow>
     parse_digits acc prev ds = Some (foldl (\<lambda>a c. a * 10 + the (digit_val c)) acc ds)"
proof (induction ds arbitrary: acc prev)
  case Nil
  then show ?case by simp
next
  case (Cons c cs)
  from Cons.prems(1) obtain d where d: "d < 10" "c = digit_char d"
    by (auto simp: is_digits_def)
  have cs: "is_digits cs" using Cons.prems(1) by (simp add: is_digits_def)
  show ?case
    using d digit_char_neq(1) [OF d(1)] digit_val_digit_char [OF d(1)] Cons.IH [OF cs, of True]
    by simp
qed

lemma foldl_digits_of:
  "foldl (\<lambda>a c. a * 10 + the (digit_val c)) 0 (digits_of n) = n"
proof (induction n rule: digits_of.induct)
  case (1 n)
  show ?case
  proof (cases "n < 10")
    case True
    then show ?thesis by (subst digits_of.simps) (simp add: digit_val_digit_char)
  next
    case False
    have "n mod 10 < 10" by simp
    then have "digit_val (digit_char (n mod 10)) = Some (n mod 10)" by (rule digit_val_digit_char)
    with False 1 show ?thesis
      by (subst digits_of.simps) simp
  qed
qed

lemma parse_digits_of: "parse_digits 0 False (digits_of n) = Some n"
  using parse_digits_digits [OF is_digits_digits_of, of n False 0] digits_of_nonempty [of n]
  by (simp add: foldl_digits_of)

lemma length_digits_of: "0 < k \<Longrightarrow> n < 10 ^ k \<Longrightarrow> length (digits_of n) \<le> k"
proof (induction n arbitrary: k rule: digits_of.induct)
  case (1 n)
  show ?case
  proof (cases "n < 10")
    case True
    with 1 show ?thesis by (subst digits_of.simps) simp
  next
    case False
    with "1.prems" have k: "1 < k" by (cases k; cases "k - 1") auto
    then obtain j where j: "k = Suc j" "0 < j" by (cases k) auto
    from "1.prems"(2) j have "n div 10 < 10 ^ j"
      by (simp add: less_mult_imp_div_less mult.commute)
    from 1(1) [OF False j(2) this] False j show ?thesis
      by (subst digits_of.simps) simp
  qed
qed

lemma count_digits_le: "count_digits s \<le> length s"
  by (simp add: count_digits_def)

lemma py_strip_id:
  assumes "s \<noteq> []" and "\<not> py_isspace (hd s)" and "\<not> py_isspace (last s)"
  shows "py_strip s = s"
proof -
  from assms(1,2) have a: "dropWhile py_isspace s = s" by (cases s) auto
  from assms(1,3) have "dropWhile py_isspace (rev s) = rev s"
    by (cases "rev s") (auto simp: last_rev [symmetric] hd_rev)
  with a show ?thesis by (simp add: py_strip_def)
qed

lemma is_digits_ends:
  assumes "is_digits s" and "s \<noteq> []"
  shows "\<not> py_isspace (hd s)" and "\<not> py_isspace (last s)"
    and "hd s \<noteq> CHR ''-''" and "hd s \<noteq> CHR ''+''"
proof -
  from assms have "hd s \<in> set s" "last s \<in> set s" by auto
  with assms(1) obtain d e where "d < 10" "hd s = digit_char d" "e < 10" "last s = digit_char e"
    unfolding is_digits_def by blast
  then show "\<not> py_isspace (hd s)" and "\<not> py_isspace (last s)"
    and "hd s \<noteq> CHR ''-''" and "hd s \<noteq> CHR ''+''"
    using digit_char_neq by auto
qed

lemma py_strip_str_int: "py_strip (py_str_int i) = py_str_int i"
proof (rule py_strip_id)
  show "py_str_int i \<noteq> []" by (simp add: py_str_int_def digits_of_nonempty)
  show "\<not> py_isspace (hd (py_str_int i))"
    using is_digits_ends(1) [OF is_digits_digits_of digits_of_nonempty]
    by (simp add: py_str_int_def py_isspace_def)
  show "\<not> py_isspace (last (py_str_int i))"
    using is_digits_ends(2) [OF is_digits_digits_of digits_of_nonempty]
    by (simp add: py_str_int_def digits_of_nonempty)
qed

lemma py_int_str_int:
  assumes "i64_min \<le> i" and "i \<le> i64_max"
  shows "py_int (py_str_int i) = Some i"
proof -
  let ?n = "nat \<bar>i\<bar>"
  have "?n < 10 ^ 19" using assms by (simp add: i64_min_def i64_max_def)
  then have "length (digits_of ?n) \<le> 19" by (intro length_digits_of) simp_all
  with count_digits_le [of "digits_of ?n"]
  have c: "\<not> int_max_str_digits < count_digits (digits_of ?n)"
    by (simp add: int_max_str_digits_def)
  note e = is_digits_ends [OF is_digits_digits_of digits_of_nonempty, of ?n]
  show ?thesis
  proof (cases "i < 0")
    case True
    then have n: "nat (- i) = ?n" by simp
    have s: "py_str_int i = CHR ''-'' # digits_of ?n" using True by (simp add: py_str_int_def)
    from True c show ?thesis
      unfolding py_int_def py_strip_str_int unfolding s
      by (simp add: parse_digits_of)
  next
    case False
    then have s: "py_str_int i = digits_of ?n" by (simp add: py_str_int_def)
    from False c e(3,4) show ?thesis
      unfolding py_int_def py_strip_str_int unfolding s
      by (simp add: parse_digits_of digits_of_nonempty)
  qed
qed

lemma last_dropWhile: "dropWhile P xs \<noteq> [] \<Longrightarrow> last (dropWhile P xs) = last xs"
  by (induction xs) auto

lemma py_strip_ends:
  "py_strip s = [] \<or> (\<not> py_isspace (hd (py_strip s)) \<and> \<not> py_isspace (last (py_strip s)))"
proof -
  define a where "a = dropWhile py_isspace s"
  define b where "b = dropWhile py_isspace (rev a)"
  have s: "py_strip s = rev b" by (simp add: py_strip_def a_def b_def)
  show ?thesis
  proof (cases "b = []")
    case True
    then show ?thesis by (simp add: s)
  next
    case False
    then have hb: "\<not> py_isspace (hd b)" unfolding b_def by (rule hd_dropWhile)
    from False have an: "a \<noteq> []" unfolding b_def by (cases a) simp_all
    then have ha: "\<not> py_isspace (hd a)" unfolding a_def by (rule hd_dropWhile)
    from False have "last b = last (rev a)" unfolding b_def by (rule last_dropWhile)
    also have "\<dots> = hd a" using an by (simp add: last_rev)
    finally have lb: "\<not> py_isspace (last b)" using ha by simp
    from False hb lb show ?thesis by (simp add: s hd_rev last_rev)
  qed
qed

lemma py_strip_idem: "py_strip (py_strip s) = py_strip s"
proof (cases "py_strip s = []")
  case True
  have "py_strip [] = []" by (simp add: py_strip_def)
  with True show ?thesis by simp
next
  case False
  with py_strip_ends [of s] show ?thesis by (intro py_strip_id) simp_all
qed


section \<open>Evaluation rules\<close>

lemmas io_eval =
  io_bind_def io_return_def sql_begin_def sql_execute_def sql_query_def sql_commit_def
  sql_rollback_def sql_close_def connect_def conn_view_def

lemmas dev_eval =
  dev_add_vehicle_def dev_transaction_def insert_or_ignore_vehicle_def
  select_existing_vehicle_def update_vehicle_dev_def insert_event_dev_def append_vehicle_def
  append_event_def next_rowid_def has_cols_def default_ts_def row_bool_def one_row_def
  select_vehicles_by_vehicle_id_def i64_max_def py_or_str_def py_strip_def py_isspace_def

lemmas user_eval =
  user_add_vehicle_def upsert_vehicle_def append_vehicle_def next_rowid_def default_ts_def
  i64_max_def jget_def jget_default_def py_strip_def py_isspace_def

lemmas hw_eval =
  hardware_event_def hw_transaction_def hw_vid_raw_def hw_ts_def hw_notes_def insert_event_hw_def
  update_summary_by_vehicle_id_def update_summary_by_id_def insert_minimal_vehicle_def
  set_summary_def append_vehicle_def append_event_def next_rowid_def has_cols_def default_ts_def
  bind_int_def i64_max_def i64_min_def py_or_def py_or_str_def py_strip_def py_isspace_def
  py_int_def digit_val_def count_digits_def int_max_str_digits_def sse_publish_def
  server_error_def

lemmas hw_demo =
  demo_env_def failing_env_def hw_world_def repo_world_def hw_req_def hw_data_def reg_vehicle_def

section \<open>The identifier resolver\<close>

lemma one_row_filter_Some:
  "\<exists>v \<in> set xs. P v \<Longrightarrow> \<exists>r. one_row (filter P xs) = Some r \<and> r \<in> set xs \<and> P r"
  by (induction xs) (auto simp: one_row_def)

lemma one_row_filter_None:
  "\<not> (\<exists>v \<in> set xs. P v) \<Longrightarrow> one_row (filter P xs) = None"
  by (induction xs) (auto simp: one_row_def)

lemma find_blank:
  "py_strip s = [] \<Longrightarrow> find_vehicle_by_identifier d (Some s) = Inr None"
  by (simp add: find_vehicle_by_identifier_def)

lemma find_by_alias:
  assumes "py_strip s \<noteq> []" and "\<exists>v \<in> set (vehicles d). v_vehicle_id v = py_strip s"
  shows "\<exists>row. find_vehicle_by_identifier d (Some s) = Inr (Some (row, ''vehicle_id''))
           \<and> row \<in> set (vehicles d) \<and> v_vehicle_id row = py_strip s"
proof -
  from one_row_filter_Some [OF assms(2)]
  obtain r where "one_row (select_vehicles_by_vehicle_id d (py_strip s)) = Some r"
    and "r \<in> set (vehicles d)" and "v_vehicle_id r = py_strip s"
    unfolding select_vehicles_by_vehicle_id_def by blast
  with assms(1) show ?thesis
    by (simp add: find_vehicle_by_identifier_def)
qed

lemma find_no_alias:
  assumes "py_strip s \<noteq> []" and "\<not> (\<exists>v \<in> set (vehicles d). v_vehicle_id v = py_strip s)"
  shows "find_vehicle_by_identifier d (Some s) =
           (case py_int (py_strip s) of
              None \<Rightarrow> Inr None
            | Some iid \<Rightarrow>
                (case select_vehicles_by_id d iid of
                   Inl e \<Rightarrow> Inl e
                 | Inr rv \<Rightarrow> (case one_row rv of Some row \<Rightarrow> Inr (Some (row, ''id''))
                              | None \<Rightarrow> Inr None)))"
proof -
  from one_row_filter_None [OF assms(2)]
  have "one_row (select_vehicles_by_vehicle_id d (py_strip s)) = None"
    unfolding select_vehicles_by_vehicle_id_def .
  with assms(1) show ?thesis
    by (simp add: find_vehicle_by_identifier_def)
qed

lemma find_by_id:
  assumes "py_strip s \<noteq> []" and "\<not> (\<exists>v \<in> set (vehicles d). v_vehicle_id v = py_strip s)"
    and "py_int (py_strip s) = Some i" and "i64_min \<le> i" and "i \<le> i64_max"
    and "\<exists>v \<in> set (vehicles d). v_id v = i"
  shows "\<exists>row. find_vehicle_by_identifier d (Some s) = Inr (Some (row, ''id''))
           \<and> row \<in> set (vehicles d) \<and> v_id row = i"
proof -
  from one_row_filter_Some [OF assms(6)]
  obtain r where "one_row (filter (\<lambda>v. v_id v = i) (vehicles d)) = Some r"
    and "r \<in> set (vehicles d)" and "v_id r = i"
    by blast
  then show ?thesis
    using assms(3,4,5)
    by (simp add: find_no_alias [OF assms(1,2)] select_vehicles_by_id_def bind_int_def)
qed

lemma find_id_absent:
  assumes "py_strip s \<noteq> []" and "\<not> (\<exists>v \<in> set (vehicles d). v_vehicle_id v = py_strip s)"
    and "py_int (py_strip s) = Some i" and "i64_min \<le> i" and "i \<le> i64_max"
    and "\<not> (\<exists>v \<in> set (vehicles d). v_id v = i)"
  shows "find_vehicle_by_identifier d (Some s) = Inr None"
  using assms(3,4,5) one_row_filter_None [OF assms(6)]
  by (simp add: find_no_alias [OF assms(1,2)] select_vehicles_by_id_def bind_int_def)

lemma find_id_overflow:
  assumes "py_strip s \<noteq> []" and "\<not> (\<exists>v \<in> set (vehicles d). v_vehicle_id v = py_strip s)"
    and "py_int (py_strip s) = Some i" and "i < i64_min \<or> i64_max < i"
  shows "find_vehicle_by_identifier d (Some s) = Inl OverflowError"
  using assms(3,4)
  by (auto simp add: find_no_alias [OF assms(1,2)] select_vehicles_by_id_def bind_int_def)

lemma get_vehicle_reads: "fst (get_vehicle w vid) = w"
  by (simp add: get_vehicle_def split: sum.splits option.splits prod.splits)

text \<open>
  Claim C2. The resolver answers in this order, the first match winning. No identifier, or
  one that is empty after trimming, is not found. Otherwise a vehicle whose alias
  (\<open>vehicle_id\<close>) is exactly the trimmed input is returned, found by \<open>vehicle_id\<close>, whatever
  the keys of the table are. Otherwise, when the trimmed input is no integer, nothing is
  found; when it is one, the vehicle with that key (\<open>id\<close>) is looked up: it is returned,
  found by \<open>id\<close>, or nothing is found, and an integer outside 64 bits cannot be bound to the
  query, which raises. The resolver is a function of the database and returns no database:
  it writes nothing, and the lookup endpoint built on it returns the state it was given.
\<close>

theorem resolver_order:
  "find_vehicle_by_identifier d None = Inr None
   \<and> (py_strip s = [] \<longrightarrow> find_vehicle_by_identifier d (Some s) = Inr None)
   \<and> (py_strip s \<noteq> [] \<and> (\<exists>v \<in> set (vehicles d). v_vehicle_id v = py_strip s) \<longrightarrow>
        (\<exists>row. find_vehicle_by_identifier d (Some s) = Inr (Some (row, ''vehicle_id''))
               \<and> row \<in> set (vehicles d) \<and> v_vehicle_id row = py_strip s))
   \<and> (py_strip s \<noteq> [] \<and> \<not> (\<exists>v \<in> set (vehicles d). v_vehicle_id v = py_strip s) \<longrightarrow>
        (case py_int (py_strip s) of
           None \<Rightarrow> find_vehicle_by_identifier d (Some s) = Inr None
         | Some i \<Rightarrow>
             if i < i64_min \<or> i64_max < i
             then find_vehicle_by_identifier d (Some s) = Inl OverflowError
             else if (\<exists>v \<in> set (vehicles d). v_id v = i)
             then (\<exists>row. find_vehicle_by_identifier d (Some s) = Inr (Some (row, ''id''))
                         \<and> row \<in> set (vehicles d) \<and> v_id row = i)
             else find_vehicle_by_identifier d (Some s) = Inr None))
   \<and> fst (get_vehicle w s) = w"
proof (intro conjI impI)
  show "find_vehicle_by_identifier d None = Inr None"
    by (simp add: find_vehicle_by_identifier_def)
next
  assume "py_strip s = []"
  then show "find_vehicle_by_identifier d (Some s) = Inr None" by (rule find_blank)
next
  assume "py_strip s \<noteq> [] \<and> (\<exists>v \<in> set (vehicles d). v_vehicle_id v = py_strip s)"
  then show "\<exists>row. find_vehicle_by_identifier d (Some s) = Inr (Some (row, ''vehicle_id''))
               \<and> row \<in> set (vehicles d) \<and> v_vehicle_id row = py_strip s"
    using find_by_alias by blast
next
  assume a: "py_strip s \<noteq> [] \<and> \<not> (\<exists>v \<in> set (vehicles d). v_vehicle_id v = py_strip s)"
  show "case py_int (py_strip s) of
           None \<Rightarrow> find_vehicle_by_identifier d (Some s) = Inr None
         | Some i \<Rightarrow>
             if i < i64_min \<or> i64_max < i
             then find_vehicle_by_identifier d (Some s) = Inl OverflowError
             else if (\<exists>v \<in> set (vehicles d). v_id v = i)
             then (\<exists>row. find_vehicle_by_identifier d (Some s) = Inr (Some (row, ''id''))
                         \<and> row \<in> set (vehicles d) \<and> v_id row = i)
             else find_vehicle_by_identifier d (Some s) = Inr None"
  proof (cases "py_int (py_strip s)")
    case None
    with a show ?thesis by (simp add: find_no_alias)
  next
    case (Some i)
    show ?thesis
    proof (cases "i < i64_min \<or> i64_max < i")
      case True
      with a Some show ?thesis using find_id_overflow [of s d i] by simp
    next
      case False
      then have r: "i64_min \<le> i" "i \<le> i64_max" by auto
      show ?thesis
      proof (cases "\<exists>v \<in> set (vehicles d). v_id v = i")
        case True
        with a Some False r show ?thesis using find_by_id [of s d i] by simp
      next
        case nf: False
        with a Some False r show ?thesis using find_id_absent [of s d i] by simp
      qed
    qed
  qed
next
  show "fst (get_vehicle w s) = w" by (rule get_vehicle_reads)
qed

text \<open>
  The theorem at work on \<open>demo_db\<close>: a blank identifier; the alias \<open>1\<close>, which wins over the
  key 1 of the other vehicle; the key 2; an alias in the wrong case; an unknown key; an
  integer beyond 64 bits; the alias \<open>VHL2023\<close> after a no-break space (0xA0) and before a
  NEL (0x85), both of which \<open>strip()\<close> removes; and the identifier that is one NEL.
\<close>

theorem resolver_order_witness:
  "find_vehicle_by_identifier demo_db (Some '' '') = Inr None
   \<and> find_vehicle_by_identifier demo_db (Some '' 1 '')
       = Inr (Some (demo_vehicle 2 ''1'', ''vehicle_id''))
   \<and> find_vehicle_by_identifier demo_db (Some ''2'') = Inr (Some (demo_vehicle 2 ''1'', ''id''))
   \<and> find_vehicle_by_identifier demo_db (Some ''vhl2023'') = Inr None
   \<and> find_vehicle_by_identifier demo_db (Some ''9999'') = Inr None
   \<and> find_vehicle_by_identifier demo_db (Some ''9223372036854775808'') = Inl OverflowError
   \<and> find_vehicle_by_identifier demo_db (Some (CHR 0xA0 # ''VHL2023'' @ [CHR 0x85]))
       = Inr (Some (demo_vehicle 1 ''VHL2023'', ''vehicle_id''))
   \<and> find_vehicle_by_identifier demo_db (Some [CHR 0x85]) = Inr None"
  using resolver_order [of demo_db "'' ''" demo_world]
    resolver_order [of demo_db "'' 1 ''" demo_world]
    resolver_order [of demo_db "''2''" demo_world]
    resolver_order [of demo_db "''vhl2023''" demo_world]
    resolver_order [of demo_db "''9999''" demo_world]
    resolver_order [of demo_db "''9223372036854775808''" demo_world]
    resolver_order [of demo_db "CHR 0xA0 # ''VHL2023'' @ [CHR 0x85]" demo_world]
    resolver_order [of demo_db "[CHR 0x85]" demo_world]
  by (simp add: find_vehicle_by_identifier_def select_vehicles_by_vehicle_id_def
      select_vehicles_by_id_def one_row_def bind_int_def py_strip_def py_isspace_def py_int_def
      digit_val_def count_digits_def int_max_str_digits_def i64_min_def i64_max_def demo_db_def
      demo_vehicle_def)

section \<open>Round trip of the two identifier forms\<close>

lemma find_strip:
  "find_vehicle_by_identifier d (Some (py_strip s)) = find_vehicle_by_identifier d (Some s)"
  by (simp add: find_vehicle_by_identifier_def py_strip_idem)

lemma distinct_map_eq:
  "distinct (map f xs) \<Longrightarrow> x \<in> set xs \<Longrightarrow> y \<in> set xs \<Longrightarrow> f x = f y \<Longrightarrow> x = y"
  by (meson distinct_map inj_on_eq_iff)

text \<open>
  Claim C8, amended. In a database that satisfies the constraints of the schema, take a
  vehicle whose alias is not empty and has no white space at either end, and whose key's
  decimal form is no other vehicle's alias. Resolving its alias returns this vehicle, and
  resolving the decimal form of its key returns this vehicle too.
\<close>

theorem resolve_round_trip:
  assumes c: "db_constraints d" and v: "v \<in> set (vehicles d)" and n: "no_alias_clash d v"
    and ne: "v_vehicle_id v \<noteq> []" and tr: "py_strip (v_vehicle_id v) = v_vehicle_id v"
  shows "find_vehicle_by_identifier d (Some (v_vehicle_id v)) = Inr (Some (v, ''vehicle_id''))
         \<and> (\<exists>used. find_vehicle_by_identifier d (Some (py_str_int (v_id v))) = Inr (Some (v, used)))"
proof
  from c have da: "distinct (map v_vehicle_id (vehicles d))"
    and di: "distinct (map v_id (vehicles d))"
    and r: "i64_min \<le> v_id v" "v_id v \<le> i64_max"
    using v by (auto simp: db_constraints_def)
  have "\<exists>u \<in> set (vehicles d). v_vehicle_id u = py_strip (v_vehicle_id v)"
    using v tr by auto
  from find_by_alias [OF _ this] ne tr
  obtain row where row: "find_vehicle_by_identifier d (Some (v_vehicle_id v)) = Inr (Some (row, ''vehicle_id''))"
    "row \<in> set (vehicles d)" "v_vehicle_id row = v_vehicle_id v"
    by auto
  from distinct_map_eq [OF da row(2) v row(3)] row(1)
  show "find_vehicle_by_identifier d (Some (v_vehicle_id v)) = Inr (Some (v, ''vehicle_id''))"
    by simp
  let ?k = "py_str_int (v_id v)"
  have k: "py_strip ?k = ?k" "?k \<noteq> []"
    by (rule py_strip_str_int) (simp add: py_str_int_def digits_of_nonempty)
  show "\<exists>used. find_vehicle_by_identifier d (Some ?k) = Inr (Some (v, used))"
  proof (cases "\<exists>u \<in> set (vehicles d). v_vehicle_id u = ?k")
    case True
    then have "\<exists>u \<in> set (vehicles d). v_vehicle_id u = py_strip ?k" by (simp add: k)
    from find_by_alias [OF _ this] k
    obtain u where u: "find_vehicle_by_identifier d (Some ?k) = Inr (Some (u, ''vehicle_id''))"
      "u \<in> set (vehicles d)" "v_vehicle_id u = ?k"
      by auto
    from n u(2,3) have "u = v" by (auto simp: no_alias_clash_def)
    with u(1) show ?thesis by blast
  next
    case False
    then have na: "\<not> (\<exists>u \<in> set (vehicles d). v_vehicle_id u = py_strip ?k)" by (simp add: k)
    have "\<exists>u \<in> set (vehicles d). v_id u = v_id v" using v by auto
    from find_by_id [OF _ na _ r this] k py_int_str_int [OF r]
    obtain u where u: "find_vehicle_by_identifier d (Some ?k) = Inr (Some (u, ''id''))"
      "u \<in> set (vehicles d)" "v_id u = v_id v"
      by auto
    from distinct_map_eq [OF di u(2) v u(3)] u(1) show ?thesis by blast
  qed
qed

lemmas resolver_eval =
  find_vehicle_by_identifier_def select_vehicles_by_vehicle_id_def select_vehicles_by_id_def
  one_row_def bind_int_def py_strip_def py_isspace_def py_int_def digit_val_def count_digits_def
  int_max_str_digits_def i64_min_def i64_max_def

lemma py_str_int_1: "py_str_int 1 = ''1''" and py_str_int_2: "py_str_int 2 = ''2''"
  by (simp_all add: py_str_int_def digits_of.simps digit_char_def char_of_def bit_iff_odd)

text \<open>
  The second vehicle of \<open>demo_db\<close>: alias \<open>1\<close>, key 2. An alias that ends in a no-break
  space (0xA0) is not one the theorem speaks of: \<open>strip()\<close> changes it.
\<close>

theorem resolve_round_trip_witness:
  "db_constraints demo_db \<and> demo_vehicle 2 ''1'' \<in> set (vehicles demo_db)
   \<and> no_alias_clash demo_db (demo_vehicle 2 ''1'')
   \<and> find_vehicle_by_identifier demo_db (Some ''1'') = Inr (Some (demo_vehicle 2 ''1'', ''vehicle_id''))
   \<and> find_vehicle_by_identifier demo_db (Some ''2'') = Inr (Some (demo_vehicle 2 ''1'', ''id''))
   \<and> py_strip (''X'' @ [CHR 0xA0]) = ''X''"
proof -
  have c: "db_constraints demo_db"
    by (simp add: db_constraints_def demo_db_def demo_vehicle_def i64_min_def i64_max_def)
  have v: "demo_vehicle 2 ''1'' \<in> set (vehicles demo_db)" by (simp add: demo_db_def)
  have n: "no_alias_clash demo_db (demo_vehicle 2 ''1'')"
    by (simp add: no_alias_clash_def demo_db_def demo_vehicle_def py_str_int_2)
  have ne: "v_vehicle_id (demo_vehicle 2 ''1'') \<noteq> []" by (simp add: demo_vehicle_def)
  have tr: "py_strip (v_vehicle_id (demo_vehicle 2 ''1'')) = v_vehicle_id (demo_vehicle 2 ''1'')"
    by (simp add: demo_vehicle_def py_strip_def py_isspace_def)
  have x: "py_strip (''X'' @ [CHR 0xA0]) = ''X''" by (simp add: py_strip_def py_isspace_def)
  from resolve_round_trip [OF c v n ne tr] c v n x show ?thesis
    by (simp add: resolver_eval demo_db_def demo_vehicle_def)
qed

text \<open>
  The claim as it was stated, for every vehicle record, fails on a vehicle whose alias is
  the empty string: the constraints and the proviso hold, its key resolves to it, and its
  alias resolves to nothing, because the resolver rejects an empty identifier before any
  lookup. \<open>hardware_event\<close> rejects a missing identifier only, so such a vehicle is what
  it inserts for an empty one.
\<close>

lemma blank_alias_inserted:
  "map v_vehicle_id (vehicles (store (fst
      (hardware_event demo_env (hw_world\<lparr>store := (store hw_world)\<lparr>vehicles := []\<rparr>\<rparr>)
         (hw_req [] ''rollover''))))) = [[]]"
  by (simp add: hw_eval io_eval hw_demo Let_def)

theorem resolve_round_trip_counterexample:
  "db_constraints blank_db \<and> demo_vehicle 1 [] \<in> set (vehicles blank_db)
   \<and> no_alias_clash blank_db (demo_vehicle 1 [])
   \<and> find_vehicle_by_identifier blank_db (Some (v_vehicle_id (demo_vehicle 1 []))) = Inr None
   \<and> find_vehicle_by_identifier blank_db (Some (py_str_int (v_id (demo_vehicle 1 []))))
       = Inr (Some (demo_vehicle 1 [], ''id''))"
  by (simp add: db_constraints_def no_alias_clash_def blank_db_def demo_vehicle_def py_str_int_1
      resolver_eval)

section \<open>The two lookup endpoints on an unknown identifier\<close>

text \<open>
  The identifier \<open>validate_id\<close> takes from the posted object:
  \<open>data.get("vehicleID") or data.get("vehicle_id") or ""\<close>.
\<close>

lemma validate_not_found:
  assumes "py_or_str (py_or (vp_vehicleID data) (vp_vehicle_id data)) [] = ident"
    and "py_strip ident \<noteq> []"
    and "find_vehicle_by_identifier (store w) (Some ident) = Inr None"
  shows "snd (validate_id w (Some data))
         = \<lparr>status = 200,
            body = [(''valid'', JBool False), (''message'', JStr ''vehicle not found'')]\<rparr>"
  using assms by (simp add: validate_id_def find_strip)

lemma validate_blank:
  assumes "py_or_str (py_or (vp_vehicleID data) (vp_vehicle_id data)) [] = ident"
    and "py_strip ident = []"
  shows "status (snd (validate_id w (Some data))) = 400"
  using assms by (simp add: validate_id_def)

lemma validate_raises:
  assumes "py_or_str (py_or (vp_vehicleID data) (vp_vehicle_id data)) [] = ident"
    and "py_strip ident \<noteq> []"
    and "find_vehicle_by_identifier (store w) (Some ident) = Inl e"
  shows "status (snd (validate_id w (Some data))) = 500"
  using assms by (simp add: validate_id_def find_strip server_error_def)

text \<open>
  An identifier that matches no vehicle: no alias is the trimmed identifier and no key is the
  integer it spells. The resolver handles three cases of it differently.
\<close>

lemma unmatched_not_found:
  assumes "py_strip ident \<noteq> []"
    and "\<not> (\<exists>v \<in> set (vehicles d). v_vehicle_id v = py_strip ident)"
    and "py_int (py_strip ident) = None
         \<or> (\<exists>i. py_int (py_strip ident) = Some i \<and> i64_min \<le> i \<and> i \<le> i64_max
                \<and> \<not> (\<exists>v \<in> set (vehicles d). v_id v = i))"
  shows "find_vehicle_by_identifier d (Some ident) = Inr None"
  using assms(3)
proof
  assume "py_int (py_strip ident) = None"
  then show ?thesis by (simp add: find_no_alias [OF assms(1,2)])
next
  assume "\<exists>i. py_int (py_strip ident) = Some i \<and> i64_min \<le> i \<and> i \<le> i64_max
              \<and> \<not> (\<exists>v \<in> set (vehicles d). v_id v = i)"
  then obtain i where "py_int (py_strip ident) = Some i" "i64_min \<le> i" "i \<le> i64_max"
    "\<not> (\<exists>v \<in> set (vehicles d). v_id v = i)"
    by blast
  then show ?thesis by (rule find_id_absent [OF assms(1,2)])
qed

lemma unmatched_raises:
  assumes "py_strip ident \<noteq> []"
    and "\<not> (\<exists>v \<in> set (vehicles d). v_vehicle_id v = py_strip ident)"
    and "\<exists>i. py_int (py_strip ident) = Some i \<and> (i < i64_min \<or> i64_max < i)"
  shows "find_vehicle_by_identifier d (Some ident) = Inl OverflowError"
proof -
  from assms(3) obtain i where "py_int (py_strip ident) = Some i" "i < i64_min \<or> i64_max < i"
    by blast
  then show ?thesis by (rule find_id_overflow [OF assms(1,2)])
qed

text \<open>
  Claim C10, amended. Take an identifier that matches no vehicle: no vehicle's alias is the
  trimmed identifier, and no vehicle's key is the integer it spells. Three cases cover every
  such identifier.

    \<^item> It is not empty after trimming, and it spells no integer or an integer of the signed
      64-bit range: \<open>POST /validateID\<close> answers 200 with \<open>valid = false\<close> and
      \<open>GET /vehicle/<vid>\<close> answers 404.
    \<^item> It is not empty after trimming and spells an integer outside the signed 64-bit
      range: the lookup by key raises \<open>OverflowError\<close>, which neither view handles, and both
      endpoints answer 500.
    \<^item> It is empty after trimming: \<open>POST /validateID\<close> answers 400 and \<open>GET /vehicle/<vid>\<close>
      answers 404.
\<close>

theorem not_found_status_codes:
  "(py_or_str (py_or (vp_vehicleID data) (vp_vehicle_id data)) [] = ident
    \<and> py_strip ident \<noteq> []
    \<and> \<not> (\<exists>v \<in> set (vehicles (store w)). v_vehicle_id v = py_strip ident)
    \<and> (py_int (py_strip ident) = None
        \<or> (\<exists>i. py_int (py_strip ident) = Some i \<and> i64_min \<le> i \<and> i \<le> i64_max
               \<and> \<not> (\<exists>v \<in> set (vehicles (store w)). v_id v = i)))
    \<longrightarrow> snd (validate_id w (Some data))
          = \<lparr>status = 200,
             body = [(''valid'', JBool False), (''message'', JStr ''vehicle not found'')]\<rparr>
        \<and> status (snd (get_vehicle w ident)) = 404)
   \<and> (py_or_str (py_or (vp_vehicleID data) (vp_vehicle_id data)) [] = ident
      \<and> py_strip ident \<noteq> []
      \<and> \<not> (\<exists>v \<in> set (vehicles (store w)). v_vehicle_id v = py_strip ident)
      \<and> (\<exists>i. py_int (py_strip ident) = Some i \<and> (i < i64_min \<or> i64_max < i))
      \<longrightarrow> status (snd (validate_id w (Some data))) = 500
          \<and> status (snd (get_vehicle w ident)) = 500)
   \<and> (py_or_str (py_or (vp_vehicleID data) (vp_vehicle_id data)) [] = ident
      \<and> py_strip ident = []
      \<longrightarrow> status (snd (validate_id w (Some data))) = 400
          \<and> status (snd (get_vehicle w ident)) = 404)"
proof (intro conjI impI)
  assume a: "py_or_str (py_or (vp_vehicleID data) (vp_vehicle_id data)) [] = ident
    \<and> py_strip ident \<noteq> []
    \<and> \<not> (\<exists>v \<in> set (vehicles (store w)). v_vehicle_id v = py_strip ident)
    \<and> (py_int (py_strip ident) = None
        \<or> (\<exists>i. py_int (py_strip ident) = Some i \<and> i64_min \<le> i \<and> i \<le> i64_max
               \<and> \<not> (\<exists>v \<in> set (vehicles (store w)). v_id v = i)))"
  then have f: "find_vehicle_by_identifier (store w) (Some ident) = Inr None"
    using unmatched_not_found [of ident "store w"] by blast
  with a show "snd (validate_id w (Some data))
        = \<lparr>status = 200,
           body = [(''valid'', JBool False), (''message'', JStr ''vehicle not found'')]\<rparr>"
    using validate_not_found by blast
  from f show "status (snd (get_vehicle w ident)) = 404" by (simp add: get_vehicle_def)
next
  assume o: "py_or_str (py_or (vp_vehicleID data) (vp_vehicle_id data)) [] = ident
      \<and> py_strip ident \<noteq> []
      \<and> \<not> (\<exists>v \<in> set (vehicles (store w)). v_vehicle_id v = py_strip ident)
      \<and> (\<exists>i. py_int (py_strip ident) = Some i \<and> (i < i64_min \<or> i64_max < i))"
  then have f: "find_vehicle_by_identifier (store w) (Some ident) = Inl OverflowError"
    using unmatched_raises [of ident "store w"] by blast
  with o show "status (snd (validate_id w (Some data))) = 500"
    using validate_raises by blast
  from f show "status (snd (get_vehicle w ident)) = 500"
    by (simp add: get_vehicle_def server_error_def)
next
  assume b: "py_or_str (py_or (vp_vehicleID data) (vp_vehicle_id data)) [] = ident
      \<and> py_strip ident = []"
  then show "status (snd (validate_id w (Some data))) = 400"
    using validate_blank by blast
  from b find_blank [of ident "store w"] show "status (snd (get_vehicle w ident)) = 404"
    by (simp add: get_vehicle_def)
qed

text \<open>
  On \<open>demo_db\<close>, whose vehicles have the aliases \<open>VHL2023\<close> and \<open>1\<close> and the keys 1 and 2: the
  unknown key \<open>9999\<close>, posted under the legacy name \<open>vehicle_id\<close>; the integer \<open>2^63\<close>, one
  past the largest that SQLite binds; and the identifier that is one no-break space.
\<close>

theorem not_found_status_codes_witness:
  "py_strip ''9999'' = ''9999'' \<and> py_int ''9999'' = Some 9999
   \<and> i64_min \<le> 9999 \<and> 9999 \<le> i64_max
   \<and> \<not> (\<exists>v \<in> set (vehicles (store demo_world)). v_vehicle_id v = ''9999'')
   \<and> \<not> (\<exists>v \<in> set (vehicles (store demo_world)). v_id v = 9999)
   \<and> snd (validate_id demo_world (Some \<lparr>vp_vehicleID = None, vp_vehicle_id = Some ''9999''\<rparr>))
       = \<lparr>status = 200,
          body = [(''valid'', JBool False), (''message'', JStr ''vehicle not found'')]\<rparr>
   \<and> status (snd (get_vehicle demo_world ''9999'')) = 404
   \<and> py_strip ''9223372036854775808'' = ''9223372036854775808''
   \<and> py_int ''9223372036854775808'' = Some 9223372036854775808
   \<and> i64_max < 9223372036854775808
   \<and> \<not> (\<exists>v \<in> set (vehicles (store demo_world)). v_vehicle_id v = ''9223372036854775808'')
   \<and> status (snd (validate_id demo_world
                    (Some \<lparr>vp_vehicleID = Some ''9223372036854775808'', vp_vehicle_id = None\<rparr>)))
       = 500
   \<and> status (snd (get_vehicle demo_world ''9223372036854775808'')) = 500
   \<and> py_strip [CHR 0xA0] = []
   \<and> status (snd (validate_id demo_world
                    (Some \<lparr>vp_vehicleID = Some [CHR 0xA0], vp_vehicle_id = None\<rparr>))) = 400
   \<and> status (snd (get_vehicle demo_world [CHR 0xA0])) = 404"
proof -
  have s: "py_strip ''9999'' = ''9999''"
    "py_strip ''9223372036854775808'' = ''9223372036854775808''" "py_strip [CHR 0xA0] = []"
    by (simp_all add: py_strip_def py_isspace_def)
  have p: "py_int ''9999'' = Some 9999"
    "py_int ''9223372036854775808'' = Some 9223372036854775808"
    by (simp_all add: py_int_def py_strip_def py_isspace_def digit_val_def count_digits_def
        int_max_str_digits_def)
  have r: "i64_min \<le> 9999" "9999 \<le> i64_max" "i64_max < 9223372036854775808"
    by (simp_all add: i64_min_def i64_max_def)
  have a: "\<not> (\<exists>v \<in> set (vehicles (store demo_world)). v_vehicle_id v = ''9999'')"
    "\<not> (\<exists>v \<in> set (vehicles (store demo_world)). v_vehicle_id v = ''9223372036854775808'')"
    "\<not> (\<exists>v \<in> set (vehicles (store demo_world)). v_id v = 9999)"
    by (simp_all add: demo_world_def demo_db_def demo_vehicle_def)
  from not_found_status_codes
         [of "\<lparr>vp_vehicleID = None, vp_vehicle_id = Some ''9999''\<rparr>" "''9999''" demo_world]
    not_found_status_codes
         [of "\<lparr>vp_vehicleID = Some ''9223372036854775808'', vp_vehicle_id = None\<rparr>"
             "''9223372036854775808''" demo_world]
    not_found_status_codes
         [of "\<lparr>vp_vehicleID = Some [CHR 0xA0], vp_vehicle_id = None\<rparr>" "[CHR 0xA0]" demo_world]
    s p r a
  show ?thesis by (simp add: py_or_def py_or_str_def)
qed

text \<open>
  The claim as it was stated, for every identifier that resolves to no vehicle, fails on two
  of them. The identifier that is one blank matches no vehicle, and \<open>POST /validateID\<close>
  answers 400, not 200. The identifier \<open>9223372036854775808\<close> matches no vehicle, and
  \<open>POST /validateID\<close> and \<open>GET /vehicle/<vid>\<close> both answer 500, not 200 and 404.
\<close>

theorem not_found_status_codes_counterexample:
  "find_vehicle_by_identifier (store demo_world) (Some '' '') = Inr None
   \<and> status (snd (validate_id demo_world
                    (Some \<lparr>vp_vehicleID = Some '' '', vp_vehicle_id = None\<rparr>))) = 400
   \<and> status (snd (get_vehicle demo_world '' '')) = 404
   \<and> find_vehicle_by_identifier (store demo_world) (Some ''9223372036854775808'')
       = Inl OverflowError
   \<and> status (snd (validate_id demo_world
                    (Some \<lparr>vp_vehicleID = Some ''9223372036854775808'', vp_vehicle_id = None\<rparr>)))
       = 500
   \<and> status (snd (get_vehicle demo_world ''9223372036854775808'')) = 500"
  by (simp add: resolver_eval validate_id_def get_vehicle_def py_or_def py_or_str_def
      server_error_def demo_world_def demo_db_def demo_vehicle_def)

section \<open>Registration through \<open>Dev_app.py\<close>\<close>

lemma append_vehicle_alias:
  "append_vehicle row d = Inr (n, d') \<Longrightarrow> \<exists>u \<in> set (vehicles d'). v_vehicle_id u = v_vehicle_id row"
  by (auto simp: append_vehicle_def split: sum.splits if_splits)

lemma insert_or_ignore_alias:
  "insert_or_ignore_vehicle now vid model owner registration details d = Inr (n, d')
     \<Longrightarrow> \<exists>u \<in> set (vehicles d'). v_vehicle_id u = vid"
  unfolding insert_or_ignore_vehicle_def
  by (auto split: if_splits dest!: append_vehicle_alias)

lemma select_existing_found:
  assumes "\<exists>u \<in> set (vehicles d). v_vehicle_id u = vid"
  shows "select_existing_vehicle vid d \<noteq> Inr None"
  using one_row_filter_Some [OF assms]
  by (auto simp: select_existing_vehicle_def select_vehicles_by_vehicle_id_def)

lemma dev_transaction_action:
  assumes "dev_transaction env vid model owner registration details meta c = (Inr action, c')"
  shows "action = ''updated''"
proof -
  let ?ins = "insert_or_ignore_vehicle (sql_now env) vid model owner registration details"
  from assms obtain n d1 where i: "?ins (conn_view c) = Inr (n, d1)"
    by (auto simp: dev_transaction_def io_bind_def sql_execute_def
        split: if_splits sum.splits prod.splits)
  let ?c1 = "c\<lparr>pending := Some d1\<rparr>"
  from insert_or_ignore_alias [OF i] have "select_existing_vehicle vid d1 \<noteq> Inr None"
    by (rule select_existing_found)
  moreover have "conn_view ?c1 = d1" by (simp add: conn_view_def)
  ultimately show ?thesis
    using assms i
    by (auto simp: dev_transaction_def io_bind_def sql_execute_def sql_query_def io_return_def
        row_bool_def
        split: if_splits sum.splits prod.splits option.splits)
qed

text \<open>
  Claim C9. \<open>POST /add_vehicle\<close> of \<open>Dev_app.py\<close> never answers 201, and every answer to a
  \<open>POST\<close> that reports success has status 200 and action \<open>updated\<close>: the \<open>SELECT\<close> after
  \<open>INSERT OR IGNORE\<close> always fetches a row, whose truth value is true.
\<close>

theorem dev_add_vehicle_reports_updated:
  "status (snd (dev_add_vehicle env w req)) \<noteq> 201
   \<and> (dv_method req = POST
        \<and> (''success'', JBool True) \<in> set (body (snd (dev_add_vehicle env w req)))
        \<longrightarrow> status (snd (dev_add_vehicle env w req)) = 200
            \<and> (''action'', JStr ''updated'') \<in> set (body (snd (dev_add_vehicle env w req))))"
  by (auto simp: dev_add_vehicle_def dev_server_error_def Let_def
      split: option.splits sum.splits prod.splits if_splits
      dest: dev_transaction_action)

text \<open>
  The first request ever for \<open>NEWCAR1\<close>, on an empty table: the row is created with key 1
  and the answer is 200, \<open>updated\<close>.
\<close>

theorem dev_add_vehicle_reports_updated_witness:
  "vehicles (store dev_world0) = [] \<and> dv_method dev_req1 = POST
   \<and> (''success'', JBool True) \<in> set (body (snd (dev_add_vehicle demo_env dev_world0 dev_req1)))
   \<and> status (snd (dev_add_vehicle demo_env dev_world0 dev_req1)) = 200
   \<and> (''action'', JStr ''updated'') \<in> set (body (snd (dev_add_vehicle demo_env dev_world0 dev_req1)))
   \<and> map v_id (vehicles (store (fst (dev_add_vehicle demo_env dev_world0 dev_req1)))) = [1]
   \<and> map v_vehicle_id (vehicles (store (fst (dev_add_vehicle demo_env dev_world0 dev_req1))))
       = [''NEWCAR1'']"
  using dev_add_vehicle_reports_updated [of demo_env dev_world0 dev_req1]
  by (simp add: dev_eval io_eval demo_env_def dev_world0_def dev_db0_def dev_req1_def Let_def)

section \<open>Registering an alias that exists\<close>

lemma append_event_vehicles:
  "append_event row d = Inr (n, d') \<Longrightarrow> vehicles d' = vehicles d"
  by (auto simp: append_event_def split: sum.splits)

lemma insert_event_dev_vehicles:
  "insert_event_dev now vid details meta d = Inr (n, d') \<Longrightarrow> vehicles d' = vehicles d"
  by (auto simp: insert_event_dev_def split: if_splits dest: append_event_vehicles)

lemma dev_transaction_existing:
  assumes ex: "\<exists>u \<in> set (vehicles d). v_vehicle_id u = vid"
    and t: "dev_transaction env vid model owner registration details meta (connect d)
              = (Inr action, c')"
  shows "vehicles (sql_close c')
         = map (\<lambda>u. if v_vehicle_id u = vid
                    then u\<lparr>v_model := Some model, v_owner := Some owner,
                           v_registration := Some registration,
                           v_accident_details := Some details,
                           v_created_at := Some (sql_now env)\<rparr>
                    else u) (vehicles d)"
proof -
  have i: "insert_or_ignore_vehicle (sql_now env) vid model owner registration details d
             = Inr (0, d)"
    using ex by (simp add: insert_or_ignore_vehicle_def)
  from one_row_filter_Some [OF ex] obtain r where
    r: "one_row (select_vehicles_by_vehicle_id d vid) = Some r"
    by (auto simp: select_vehicles_by_vehicle_id_def)
  show ?thesis
    using t i r
    by (auto simp: dev_transaction_def io_eval select_existing_vehicle_def update_vehicle_dev_def
        split: if_splits sum.splits prod.splits option.splits
        dest!: insert_event_dev_vehicles)
qed

lemma dev_add_vehicle_existing:
  assumes "dv_method req = POST" and "dv_is_json req" and "dv_json req = Some data"
    and "\<exists>u \<in> set (vehicles (store w)).
           v_vehicle_id u = py_strip (py_or_str (dp_vehicle_id data) [])"
    and "py_strip (py_or_str (dp_vehicle_id data) []) \<noteq> []"
    and "status (snd (dev_add_vehicle env w req)) = 200"
  shows "vehicles (store (fst (dev_add_vehicle env w req)))
         = map (\<lambda>u. if v_vehicle_id u = py_strip (py_or_str (dp_vehicle_id data) [])
                    then u\<lparr>v_model := Some (py_strip (py_or_str (dp_model data) [])),
                           v_owner := Some (py_strip (py_or_str (dp_owner data) [])),
                           v_registration := Some (py_strip (py_or_str (dp_registration data) [])),
                           v_accident_details :=
                             Some (py_strip (py_or_str (dp_accident_details data) [])),
                           v_created_at := Some (sql_now env)\<rparr>
                    else u) (vehicles (store w))"
  using assms
  by (auto simp: dev_add_vehicle_def dev_server_error_def Let_def
      split: sum.splits prod.splits if_splits
      dest!: dev_transaction_existing [rotated])

lemma user_add_vehicle_existing:
  assumes "req = Parsed data"
    and "vid = py_strip (case jget (uv_vehicle_id data) of
                          Some x \<Rightarrow> x
                        | None \<Rightarrow> (case jget (uv_id data) of Some x \<Rightarrow> x | None \<Rightarrow> []))"
    and "\<exists>u \<in> set (vehicles (store w)). v_vehicle_id u = vid"
    and "vid \<noteq> []"
    and "status (snd (user_add_vehicle env w req)) = 201"
  shows "vehicles (store (fst (user_add_vehicle env w req)))
         = map (\<lambda>u. if v_vehicle_id u = vid
                    then u\<lparr>v_model := jget_default (uv_model data) [],
                           v_owner := jget_default (uv_owner data) [],
                           v_registration := jget_default (uv_registration data) []\<rparr>
                    else u) (vehicles (store w))"
proof -
  have e: "py_strip [] = []" by (simp add: py_strip_def)
  show ?thesis
    using assms
    by (auto simp: user_add_vehicle_def server_error_def Let_def io_eval upsert_vehicle_def e
        split: sum.splits prod.splits if_splits option.splits)
qed

text \<open>
  Claim C5, amended. When a vehicle with the alias exists, a successful \<open>POST /add_vehicle\<close>
  changes the rows with that alias and no other row, and changes neither key nor alias.
  \<open>Dev_app.py\<close> overwrites model, owner, registration and the summary and sets
  \<open>created_at\<close> to the current time. \<open>User_app.py\<close> overwrites model, owner and
  registration and leaves the summary and \<open>created_at\<close> as they were.
\<close>

theorem upsert_existing_alias:
  "(dv_method req = POST \<and> dv_is_json req \<and> dv_json req = Some data
    \<and> (\<exists>u \<in> set (vehicles (store w)).
          v_vehicle_id u = py_strip (py_or_str (dp_vehicle_id data) []))
    \<and> py_strip (py_or_str (dp_vehicle_id data) []) \<noteq> []
    \<and> status (snd (dev_add_vehicle env w req)) = 200
    \<longrightarrow> vehicles (store (fst (dev_add_vehicle env w req)))
         = map (\<lambda>u. if v_vehicle_id u = py_strip (py_or_str (dp_vehicle_id data) [])
                    then u\<lparr>v_model := Some (py_strip (py_or_str (dp_model data) [])),
                           v_owner := Some (py_strip (py_or_str (dp_owner data) [])),
                           v_registration := Some (py_strip (py_or_str (dp_registration data) [])),
                           v_accident_details :=
                             Some (py_strip (py_or_str (dp_accident_details data) [])),
                           v_created_at := Some (sql_now env)\<rparr>
                    else u) (vehicles (store w)))
   \<and> (ureq = Parsed udata
      \<and> vid = py_strip (case jget (uv_vehicle_id udata) of
                          Some x \<Rightarrow> x
                        | None \<Rightarrow> (case jget (uv_id udata) of Some x \<Rightarrow> x | None \<Rightarrow> []))
      \<and> (\<exists>u \<in> set (vehicles (store w)). v_vehicle_id u = vid) \<and> vid \<noteq> []
      \<and> status (snd (user_add_vehicle env w ureq)) = 201
      \<longrightarrow> vehicles (store (fst (user_add_vehicle env w ureq)))
         = map (\<lambda>u. if v_vehicle_id u = vid
                    then u\<lparr>v_model := jget_default (uv_model udata) [],
                           v_owner := jget_default (uv_owner udata) [],
                           v_registration := jget_default (uv_registration udata) []\<rparr>
                    else u) (vehicles (store w)))"
  using dev_add_vehicle_existing [of req data w env]
    user_add_vehicle_existing [of ureq udata vid w env]
  by blast


text \<open>
  Both requests on the registered vehicle \<open>VHL2023\<close>: the key stays 1; \<open>Dev_app.py\<close>
  stamps \<open>created_at\<close> anew and replaces the summary, \<open>User_app.py\<close> keeps both.
\<close>

theorem upsert_existing_alias_witness:
  "vehicles (store reg_world) = [reg_vehicle]
   \<and> status (snd (dev_add_vehicle demo_env reg_world dev_req2)) = 200
   \<and> vehicles (store (fst (dev_add_vehicle demo_env reg_world dev_req2)))
       = [reg_vehicle\<lparr>v_model := Some ''Audi A4'', v_owner := Some ''John Doe'',
                      v_registration := Some ''TN-01-XY-0001'',
                      v_accident_details := Some ''rear collision'',
                      v_created_at := Some ''2025-06-01 12:00:00''\<rparr>]
   \<and> status (snd (user_add_vehicle demo_env reg_world user_req2)) = 201
   \<and> vehicles (store (fst (user_add_vehicle demo_env reg_world user_req2)))
       = [reg_vehicle\<lparr>v_model := Some ''Audi A4'', v_owner := Some ''John Doe'',
                      v_registration := Some ''TN-01-XY-0001''\<rparr>]"
  using upsert_existing_alias [of dev_req2 "the (dv_json dev_req2)" reg_world demo_env
      user_req2 "\<lparr>uv_vehicle_id = Str ''VHL2023'', uv_id = Absent, uv_model = Str ''Audi A4'',
                  uv_owner = Str ''John Doe'', uv_registration = Str ''TN-01-XY-0001''\<rparr>"
      "''VHL2023''"]
  by (simp add: dev_eval user_eval io_eval demo_env_def reg_world_def reg_vehicle_def
      dev_req2_def user_req2_def Let_def)

text \<open>
  The claim as it was stated fails on the same two requests. After the request to
  \<open>Dev_app.py\<close> the creation timestamp of the vehicle is the time of the request, not the
  original one. After the request to \<open>User_app.py\<close> the summary is the old one: its
  statement binds no summary and its \<open>DO UPDATE\<close> clause does not name the column.
\<close>

theorem upsert_existing_alias_counterexample:
  "vehicles (store reg_world) = [reg_vehicle]
   \<and> v_created_at reg_vehicle = Some ''2025-01-01 00:00:00''
   \<and> status (snd (dev_add_vehicle demo_env reg_world dev_req2)) = 200
   \<and> map v_created_at (vehicles (store (fst (dev_add_vehicle demo_env reg_world dev_req2))))
       = [Some ''2025-06-01 12:00:00'']
   \<and> status (snd (user_add_vehicle demo_env reg_world user_req2)) = 201
   \<and> map v_accident_details
         (vehicles (store (fst (user_add_vehicle demo_env reg_world user_req2))))
       = [Some ''No recent accidents reported.'']"
  by (simp add: dev_eval user_eval io_eval demo_env_def reg_world_def reg_vehicle_def
      dev_req2_def user_req2_def Let_def)

section \<open>Publishing to the hub\<close>

lemma publish_fold:
  "distinct arr \<Longrightarrow>
     fold (\<lambda>q h. h(q := h q @ [p])) arr h q' = (if q' \<in> set arr then h q' @ [p] else h q')"
  by (induction arr arbitrary: h) auto

lemma registered_subscribe:
  "registered (fst (sse_subscribe w vid)) vid' =
     (if vid' = vid then registered w vid @ [next_ref w] else registered w vid')"
  by (simp add: sse_subscribe_def registered_def Let_def)

text \<open>\<open>hub_ok\<close> holds of the empty hub and every operation of the hub keeps it.\<close>

lemma hub_ok_empty:
  "subscribers w = Map.empty \<Longrightarrow> hub_ok w"
  by (simp add: hub_ok_def registered_def)

lemma hub_ok_subscribe:
  assumes "hub_ok w"
  shows "hub_ok (fst (sse_subscribe w vid))"
proof -
  have n: "next_ref (fst (sse_subscribe w vid)) = Suc (next_ref w)"
    by (simp add: sse_subscribe_def Let_def)
  from assms show ?thesis
    unfolding hub_ok_def registered_subscribe n
    by (auto simp: less_Suc_eq split: if_splits)
qed

lemma py_remove_subset: "set (py_remove h arr q) \<subseteq> set arr"
  by (induction arr) auto

lemma py_remove_distinct: "distinct arr \<Longrightarrow> distinct (py_remove h arr q)"
  using py_remove_subset by (induction arr) fastforce+

lemma registered_unsubscribe:
  "set (registered (sse_unsubscribe w vid q) vid') \<subseteq> set (registered w vid')"
  using py_remove_subset
  by (auto simp: sse_unsubscribe_def registered_def split: option.splits)

lemma distinct_unsubscribe:
  "distinct (registered w vid') \<Longrightarrow> distinct (registered (sse_unsubscribe w vid q) vid')"
  using py_remove_distinct
  by (auto simp: sse_unsubscribe_def registered_def split: option.splits)

lemma hub_ok_unsubscribe:
  assumes "hub_ok w"
  shows "hub_ok (sse_unsubscribe w vid q)"
proof -
  have n: "next_ref (sse_unsubscribe w vid q) = next_ref w"
    by (simp add: sse_unsubscribe_def split: option.splits)
  from assms show ?thesis
    unfolding hub_ok_def n
    using registered_unsubscribe [of w vid q] distinct_unsubscribe [of w _ vid q]
    by (meson subsetD)
qed

lemma hub_ok_publish:
  "hub_ok w \<Longrightarrow> hub_ok (sse_publish w vid p)"
  by (simp add: hub_ok_def registered_def sse_publish_def Let_def)

text \<open>
  Claim C6. \<open>sse_publish(ref, event)\<close> appends one copy of the event to the queue of every
  handle registered under exactly the string \<open>ref\<close> and leaves every other queue, and the
  registrations, as they were. A handle registered under another string, such as the key of
  the vehicle when the event is published under its alias, receives nothing.
\<close>

theorem publish_exact_reference:
  assumes "hub_ok w"
  shows "(\<forall>q. heap (sse_publish w vid p) q
              = (if q \<in> set (registered w vid) then heap w q @ [p] else heap w q))
         \<and> (\<forall>vid' q. vid' \<noteq> vid \<and> q \<in> set (registered w vid')
              \<longrightarrow> heap (sse_publish w vid p) q = heap w q)
         \<and> subscribers (sse_publish w vid p) = subscribers w"
proof (intro conjI allI impI)
  from assms have d: "distinct (registered w vid)" by (simp add: hub_ok_def)
  show h: "heap (sse_publish w vid p) q
        = (if q \<in> set (registered w vid) then heap w q @ [p] else heap w q)" for q
    using publish_fold [OF d, of p "heap w" q]
    by (simp add: sse_publish_def registered_def Let_def)
  show "heap (sse_publish w vid p) q = heap w q"
    if "vid' \<noteq> vid \<and> q \<in> set (registered w vid')" for vid' q
  proof -
    from that assms have "q \<notin> set (registered w vid)" unfolding hub_ok_def by blast
    then show ?thesis by (simp add: h)
  qed
  show "subscribers (sse_publish w vid p) = subscribers w"
    by (simp add: sse_publish_def Let_def)
qed

text \<open>
  One subscriber under the key \<open>1\<close> and two under the alias \<open>VHL2023\<close> of the same vehicle:
  an event published under the alias reaches the two, one published under the key reaches
  the one.
\<close>

lemma hub3_eval:
  "registered hub3 ''1'' = [0]" "registered hub3 ''VHL2023'' = [1, 2]"
  "heap hub3 0 = []" "heap hub3 (Suc 0) = []" "heap hub3 2 = []"
  by (simp_all add: hub3_def hub0_def sse_subscribe_def registered_def Let_def)

theorem publish_exact_reference_witness:
  "hub_ok hub3 \<and> registered hub3 ''1'' = [0] \<and> registered hub3 ''VHL2023'' = [1, 2]
   \<and> heap (sse_publish hub3 ''VHL2023'' demo_event) 0 = []
   \<and> heap (sse_publish hub3 ''VHL2023'' demo_event) 1 = [demo_event]
   \<and> heap (sse_publish hub3 ''VHL2023'' demo_event) 2 = [demo_event]
   \<and> heap (sse_publish hub3 ''1'' demo_event) 0 = [demo_event]
   \<and> heap (sse_publish hub3 ''1'' demo_event) 1 = []
   \<and> heap (sse_publish hub3 ''1'' demo_event) 2 = []"
proof -
  have "hub_ok hub0" by (rule hub_ok_empty) (simp add: hub0_def)
  then have ok: "hub_ok hub3" unfolding hub3_def by (intro hub_ok_subscribe)
  from publish_exact_reference [OF ok, of "''VHL2023''" demo_event]
    publish_exact_reference [OF ok, of "''1''" demo_event] ok
  show ?thesis by (simp add: hub3_eval)
qed

section \<open>Live stream sessions and the hub\<close>

lemma first_frame_is_ack:
  "s_gen s = Created \<Longrightarrow> session_step w s = (w, s\<lparr>s_gen := Suspended 0\<rparr>, Some (Connected (s_vid s)))"
  by (simp add: session_step_def)

lemma pending_event_is_next_frame:
  "s_gen s = Suspended k \<Longrightarrow> heap w (s_q s) = item # rest \<Longrightarrow>
     session_step w s = (w\<lparr>heap := (heap w)(s_q s := rest)\<rparr>, s, Some (Data item))"
  by (simp add: session_step_def)

text \<open>
  One session alone: the acknowledgement, then the one event published, then nothing; after
  it is closed no handle is registered.
\<close>

lemma single_session_scenario:
  "(let (w1, s0) = stream_vehicle hub0 ''VHL2023'';
        (w2, s1, f1) = session_step w1 s0;
        w3 = sse_publish w2 ''VHL2023'' demo_event;
        (w4, s2, f2) = session_step w3 s1;
        (w5, s3, f3) = session_step w4 s2;
        (w6, s4) = session_close w5 s3
    in [f1, f2, f3] = [Some (Connected ''VHL2023''), Some (Data demo_event), None]
       \<and> registered w6 ''VHL2023'' = [])"
  by (simp add: stream_vehicle_def session_step_def session_close_def sse_subscribe_def
      sse_unsubscribe_def sse_publish_def py_eq_def registered_def hub0_def Let_def)

lemma two_sessions_eval:
  "two_sessions =
     (\<lparr>store = demo_db, subscribers = [''VHL2023'' \<mapsto> [0, 1]],
       heap = (\<lambda>_. [])(0 := [], 1 := []), next_ref = 2\<rparr>,
      \<lparr>s_vid = ''VHL2023'', s_q = 0, s_gen = Suspended 0\<rparr>,
      \<lparr>s_vid = ''VHL2023'', s_q = 1, s_gen = Suspended 0\<rparr>)"
  by (simp add: two_sessions_def stream_vehicle_def session_step_def sse_subscribe_def hub0_def
      Let_def numeral_2_eq_2)

text \<open>
  A session whose generator is closed before it has run (the response to a \<open>HEAD\<close> request
  is never iterated) stays registered: the \<open>finally\<close> clause belongs to a \<open>try\<close> that was
  not entered.
\<close>

lemma unstarted_session_stays_registered:
  "(let (w1, s0) = stream_vehicle hub0 ''VHL2023''; (w2, s1) = session_close w1 s0
    in s_gen s1 = Closed \<and> registered w2 ''VHL2023'' = [s_q s0])"
  by (simp add: stream_vehicle_def session_close_def sse_subscribe_def registered_def hub0_def
      Let_def)

text \<open>
  Claim C7 says that a session emits the acknowledgement first and then every event
  published to its reference string, in order, and that on every exit path its handle is
  unsubscribed from the hub. The code does not keep this when two sessions listen to one
  reference string. \<open>sse_unsubscribe\<close> tests \<open>q in arr\<close> and calls \<open>arr.remove(q)\<close>, which
  compare lists by value: with both queues empty, closing the second session removes the
  handle of the first, which is still open, and leaves its own. An event published
  afterwards is appended to the queue of the closed session only, and the open session
  emits nothing.
\<close>

theorem closing_one_session_unsubscribes_another:
  "(case two_sessions of (w, a, b) \<Rightarrow>
      registered w ''VHL2023'' = [s_q a, s_q b] \<and> s_q a = 0 \<and> s_q b = 1
      \<and> s_gen a = Suspended 0 \<and> s_gen b = Suspended 0)
   \<and> (case second_closed of (w, a, b) \<Rightarrow>
      s_gen a = Suspended 0 \<and> s_gen b = Closed
      \<and> registered w ''VHL2023'' = [s_q b]
      \<and> heap (sse_publish w ''VHL2023'' demo_event) (s_q a) = []
      \<and> heap (sse_publish w ''VHL2023'' demo_event) (s_q b) = [demo_event]
      \<and> snd (snd (session_step (sse_publish w ''VHL2023'' demo_event) a)) = None)"
  by (simp add: second_closed_def two_sessions_eval session_close_def sse_unsubscribe_def
      py_eq_def registered_def sse_publish_def session_step_def Let_def)

section \<open>The transaction of \<open>hardware_event\<close>\<close>

text \<open>A transaction that raises leaves the file as it was.\<close>

lemma hw_transaction_failure:
  "hw_transaction env vid notes ts data c = (Inl e, c') \<Longrightarrow> persisted c' = persisted c"
  by (auto simp: hw_transaction_def io_bind_def io_return_def sql_begin_def sql_execute_def
      sql_commit_def
      split: if_splits sum.splits prod.splits option.splits)

text \<open>What the success of a step says about the step.\<close>

lemma io_bind_InrE:
  assumes "io_bind m f c = (Inr y, c')"
  obtains x c1 where "m c = (Inr x, c1)" and "f x c1 = (Inr y, c')"
  using assms by (auto simp: io_bind_def split: prod.splits sum.splits)

lemma io_return_InrE:
  assumes "io_return x c = (Inr y, c')"
  obtains "y = x" and "c' = c"
  using assms by (simp add: io_return_def)

lemma sql_begin_InrE:
  assumes "sql_begin env s c = (Inr x, c')"
  obtains "pending c = None" and "c' = c\<lparr>pending := Some (persisted c)\<rparr>"
    and "\<not> storage_fails env s"
  using assms by (auto simp: sql_begin_def split: if_splits option.splits)

lemma sql_execute_InrE:
  assumes "sql_execute env s f c = (Inr x, c')"
  obtains d' where "f (conn_view c) = Inr (x, d')" and "c' = c\<lparr>pending := Some d'\<rparr>"
    and "\<not> storage_fails env s"
  using assms by (auto simp: sql_execute_def split: if_splits sum.splits)

lemma sql_commit_InrE:
  assumes "sql_commit env s c = (Inr x, c')"
  obtains "c' = \<lparr>persisted = conn_view c, pending = None\<rparr>" and "\<not> storage_fails env s"
  using assms by (auto simp: sql_commit_def split: if_splits)

text \<open>
  A transaction that commits has run its statements in one of four ways: the first
  \<open>UPDATE\<close> matched; it matched nothing and the identifier is no integer, so a vehicle was
  inserted; the second \<open>UPDATE\<close> matched; or neither matched and a vehicle was inserted.
\<close>

lemma hw_transaction_success:
  assumes "hw_transaction env vid notes ts data (connect d) = (Inr u, c')"
  shows "\<exists>n d1 rc d2.
           insert_event_hw (sql_now env) vid ts data d = Inr (n, d1)
           \<and> update_summary_by_vehicle_id (sql_now env) notes vid d1 = Inr (rc, d2)
           \<and> ((rc \<noteq> 0 \<and> persisted c' = d2)
              \<or> (rc = 0 \<and> py_int vid = None
                  \<and> (\<exists>m d3. insert_minimal_vehicle (sql_now env) vid notes d2 = Inr (m, d3)
                             \<and> persisted c' = d3))
              \<or> (rc = 0
                  \<and> (\<exists>i rc2 d3. py_int vid = Some i
                        \<and> update_summary_by_id (sql_now env) notes i d2 = Inr (rc2, d3)
                        \<and> ((rc2 \<noteq> 0 \<and> persisted c' = d3)
                           \<or> (rc2 = 0
                               \<and> (\<exists>m d4. insert_minimal_vehicle (sql_now env) vid notes d3
                                            = Inr (m, d4)
                                          \<and> persisted c' = d4))))))"
proof -
  let ?now = "sql_now env"
  from assms obtain c1 n d1 rc d2 c3 rc2 c4 rc3 where
    b: "c1 = (connect d)\<lparr>pending := Some d\<rparr>"
    and i: "insert_event_hw ?now vid ts data (conn_view c1) = Inr (n, d1)"
    and u: "update_summary_by_vehicle_id ?now notes vid d1 = Inr (rc, d2)"
    and k: "(if rc = 0
             then (case py_int vid of
                     None \<Rightarrow> io_return rc
                   | Some iid \<Rightarrow> sql_execute env HW_update_by_id (update_summary_by_id ?now notes iid))
             else io_return rc) (c1\<lparr>pending := Some d2\<rparr>) = (Inr rc2, c3)"
    and v: "(if rc2 = 0
             then sql_execute env HW_insert_vehicle (insert_minimal_vehicle ?now vid notes)
             else io_return rc2) c3 = (Inr rc3, c4)"
    and c: "c' = \<lparr>persisted = conn_view c4, pending = None\<rparr>"
    unfolding hw_transaction_def
    by (elim io_bind_InrE sql_begin_InrE sql_execute_InrE sql_commit_InrE)
       (simp add: connect_def conn_view_def)
  have i': "insert_event_hw ?now vid ts data d = Inr (n, d1)"
    using i b by (simp add: conn_view_def connect_def)
  show ?thesis
  proof (cases "rc = 0")
    case False
    with k v c have "persisted c' = d2"
      by (auto simp: conn_view_def elim!: io_return_InrE)
    with i' u False show ?thesis by blast
  next
    case True
    show ?thesis
    proof (cases "py_int vid")
      case None
      with True k have "rc2 = 0" "c3 = c1\<lparr>pending := Some d2\<rparr>"
        by (auto elim!: io_return_InrE)
      with v c obtain m d3 where "insert_minimal_vehicle ?now vid notes d2 = Inr (m, d3)"
        "persisted c' = d3"
        by (auto simp: conn_view_def elim!: sql_execute_InrE)
      with i' u True None show ?thesis by blast
    next
      case (Some iid)
      with True k obtain d3 where k': "update_summary_by_id ?now notes iid d2 = Inr (rc2, d3)"
        "c3 = c1\<lparr>pending := Some d3\<rparr>"
        by (auto simp: conn_view_def elim!: sql_execute_InrE)
      show ?thesis
      proof (cases "rc2 = 0")
        case False
        with v c k' have "persisted c' = d3"
          by (auto simp: conn_view_def elim!: io_return_InrE)
        with i' u True Some k' False show ?thesis by blast
      next
        case z: True
        with v c k' obtain m d4 where "insert_minimal_vehicle ?now vid notes d3 = Inr (m, d4)"
          "persisted c' = d4"
          by (auto simp: conn_view_def elim!: sql_execute_InrE)
        with i' u True Some k' z show ?thesis by blast
      qed
    qed
  qed
qed

text \<open>The effect of each statement on the rows.\<close>

lemma append_event_effect:
  "append_event row d = Inr (n, d1) \<Longrightarrow>
     vehicles d1 = vehicles d \<and> veh_cols d1 = veh_cols d
     \<and> (\<exists>rid. accident_events d1 = accident_events d @ [row\<lparr>e_id := rid\<rparr>])"
  by (auto simp: append_event_def split: sum.splits)

lemma insert_event_hw_effect:
  "insert_event_hw now vid ts data d = Inr (n, d1) \<Longrightarrow>
     vehicles d1 = vehicles d \<and> veh_cols d1 = veh_cols d
     \<and> (\<exists>e. accident_events d1 = accident_events d @ [e] \<and> e_vehicle_id e = vid
             \<and> e_raw_payload e = Some data \<and> e_timestamp e = Some ts)"
  by (auto simp: insert_event_hw_def split: if_splits dest!: append_event_effect)

lemma update_by_vehicle_id_effect:
  "update_summary_by_vehicle_id now notes vid d = Inr (rc, d2) \<Longrightarrow>
     accident_events d2 = accident_events d
     \<and> vehicles d2 = map (\<lambda>v. if v_vehicle_id v = vid then set_summary now notes v else v)
                        (vehicles d)
     \<and> (rc = 0 \<longleftrightarrow> \<not> (\<exists>u \<in> set (vehicles d). v_vehicle_id u = vid))"
  by (auto simp: update_summary_by_vehicle_id_def filter_empty_conv split: if_splits)

lemma update_by_id_effect:
  "update_summary_by_id now notes i d = Inr (rc, d2) \<Longrightarrow>
     accident_events d2 = accident_events d
     \<and> vehicles d2 = map (\<lambda>v. if v_id v = i then set_summary now notes v else v) (vehicles d)
     \<and> (rc = 0 \<longleftrightarrow> \<not> (\<exists>u \<in> set (vehicles d). v_id u = i))"
  by (auto simp: update_summary_by_id_def bind_int_def filter_empty_conv split: if_splits)

lemma insert_minimal_effect:
  "insert_minimal_vehicle now vid notes d = Inr (m, d3) \<Longrightarrow>
     accident_events d3 = accident_events d
     \<and> (\<exists>row. vehicles d3 = vehicles d @ [row] \<and> v_vehicle_id row = vid
               \<and> v_accident_details row = Some notes)"
  by (auto simp: insert_minimal_vehicle_def append_vehicle_def split: if_splits sum.splits)

lemma set_summary_fields:
  "v_vehicle_id (set_summary now notes v) = v_vehicle_id v"
  "v_id (set_summary now notes v) = v_id v"
  "v_accident_details (set_summary now notes v) = Some notes"
  by (simp_all add: set_summary_def)

lemma map_if_none:
  "\<not> (\<exists>u \<in> set xs. P u) \<Longrightarrow> map (\<lambda>v. if P v then f v else v) xs = xs"
  by (induction xs) auto

text \<open>The rows after a commit, in terms of the rows before.\<close>

lemma hw_transaction_rows:
  assumes "hw_transaction env vid notes ts data (connect d) = (Inr u, c')"
  shows "(\<exists>e. accident_events (persisted c') = accident_events d @ [e] \<and> e_vehicle_id e = vid
              \<and> e_raw_payload e = Some data)
         \<and> (((\<exists>u \<in> set (vehicles d). v_vehicle_id u = vid)
              \<and> vehicles (persisted c')
                  = map (\<lambda>v. if v_vehicle_id v = vid then set_summary (sql_now env) notes v else v)
                      (vehicles d))
            \<or> (\<not> (\<exists>u \<in> set (vehicles d). v_vehicle_id u = vid)
                \<and> (\<exists>i. py_int vid = Some i \<and> (\<exists>u \<in> set (vehicles d). v_id u = i)
                      \<and> vehicles (persisted c')
                          = map (\<lambda>v. if v_id v = i then set_summary (sql_now env) notes v else v)
                              (vehicles d)))
            \<or> (\<not> (\<exists>u \<in> set (vehicles d). v_vehicle_id u = vid)
                \<and> (\<forall>i. py_int vid = Some i \<longrightarrow> \<not> (\<exists>u \<in> set (vehicles d). v_id u = i))
                \<and> (\<exists>row. vehicles (persisted c') = vehicles d @ [row] \<and> v_vehicle_id row = vid
                          \<and> v_accident_details row = Some notes)))"
proof -
  let ?now = "sql_now env"
  let ?A = "\<exists>u \<in> set (vehicles d). v_vehicle_id u = vid"
  from hw_transaction_success [OF assms] obtain n d1 rc d2 where
    i: "insert_event_hw ?now vid ts data d = Inr (n, d1)"
    and u: "update_summary_by_vehicle_id ?now notes vid d1 = Inr (rc, d2)"
    and r: "(rc \<noteq> 0 \<and> persisted c' = d2)
              \<or> (rc = 0 \<and> py_int vid = None
                  \<and> (\<exists>m d3. insert_minimal_vehicle ?now vid notes d2 = Inr (m, d3)
                             \<and> persisted c' = d3))
              \<or> (rc = 0
                  \<and> (\<exists>i rc2 d3. py_int vid = Some i
                        \<and> update_summary_by_id ?now notes i d2 = Inr (rc2, d3)
                        \<and> ((rc2 \<noteq> 0 \<and> persisted c' = d3)
                           \<or> (rc2 = 0
                               \<and> (\<exists>m d4. insert_minimal_vehicle ?now vid notes d3
                                            = Inr (m, d4)
                                          \<and> persisted c' = d4)))))"
    by blast
  from insert_event_hw_effect [OF i] obtain e where
    v1: "vehicles d1 = vehicles d"
    and e: "accident_events d1 = accident_events d @ [e]" "e_vehicle_id e = vid"
      "e_raw_payload e = Some data"
    by blast
  from update_by_vehicle_id_effect [OF u] v1 have
    e2: "accident_events d2 = accident_events d1"
    and v2: "vehicles d2
             = map (\<lambda>v. if v_vehicle_id v = vid then set_summary ?now notes v else v) (vehicles d)"
    and rc: "rc = 0 \<longleftrightarrow> \<not> ?A"
    by simp_all
  have v2': "vehicles d2 = vehicles d" if "\<not> ?A"
    using that v2 map_if_none [of "vehicles d" "\<lambda>v. v_vehicle_id v = vid"] by simp
  from r consider
    (by_alias) "rc \<noteq> 0" "persisted c' = d2"
  | (fresh) m d3 where "rc = 0" "py_int vid = None"
      "insert_minimal_vehicle ?now vid notes d2 = Inr (m, d3)" "persisted c' = d3"
  | (by_key) i rc2 d3 where "rc = 0" "py_int vid = Some i"
      "update_summary_by_id ?now notes i d2 = Inr (rc2, d3)" "rc2 \<noteq> 0" "persisted c' = d3"
  | (fresh_key) i rc2 d3 m d4 where "rc = 0" "py_int vid = Some i"
      "update_summary_by_id ?now notes i d2 = Inr (rc2, d3)" "rc2 = 0"
      "insert_minimal_vehicle ?now vid notes d3 = Inr (m, d4)" "persisted c' = d4"
    by blast
  then show ?thesis
  proof cases
    case by_alias
    from by_alias(1) rc have a: ?A by simp
    from by_alias(2) e e2 have "accident_events (persisted c') = accident_events d @ [e]" by simp
    with e(2,3) a v2 by_alias(2) show ?thesis by blast
  next
    case fresh
    from fresh(1) rc have a: "\<not> ?A" by simp
    from insert_minimal_effect [OF fresh(3)] obtain row where
      "accident_events d3 = accident_events d2" "vehicles d3 = vehicles d2 @ [row]"
      "v_vehicle_id row = vid" "v_accident_details row = Some notes"
      by blast
    with fresh(4) e e2 v2' [OF a] have
      "accident_events (persisted c') = accident_events d @ [e]"
      "vehicles (persisted c') = vehicles d @ [row]" "v_vehicle_id row = vid"
      "v_accident_details row = Some notes"
      by simp_all
    with e(2,3) a fresh(2) show ?thesis by auto
  next
    case by_key
    from by_key(1) rc have a: "\<not> ?A" by simp
    from update_by_id_effect [OF by_key(3)] v2' [OF a] have
      e3: "accident_events d3 = accident_events d2"
      and v3: "vehicles d3
               = map (\<lambda>v. if v_id v = i then set_summary ?now notes v else v) (vehicles d)"
      and k: "rc2 = 0 \<longleftrightarrow> \<not> (\<exists>u \<in> set (vehicles d). v_id u = i)"
      by simp_all
    from by_key(4) k have kk: "\<exists>u \<in> set (vehicles d). v_id u = i" by simp
    from by_key(5) e e2 e3 have "accident_events (persisted c') = accident_events d @ [e]"
      by simp
    with e(2,3) a by_key(2,5) kk v3 show ?thesis by blast
  next
    case fresh_key
    from fresh_key(1) rc have a: "\<not> ?A" by simp
    from update_by_id_effect [OF fresh_key(3)] v2' [OF a] have
      e3: "accident_events d3 = accident_events d2"
      and v3: "vehicles d3
               = map (\<lambda>v. if v_id v = i then set_summary ?now notes v else v) (vehicles d)"
      and k: "rc2 = 0 \<longleftrightarrow> \<not> (\<exists>u \<in> set (vehicles d). v_id u = i)"
      by simp_all
    from fresh_key(4) k have nk: "\<not> (\<exists>u \<in> set (vehicles d). v_id u = i)" by simp
    with v3 map_if_none [of "vehicles d" "\<lambda>v. v_id v = i"] have v3': "vehicles d3 = vehicles d"
      by simp
    from nk fresh_key(2) have
      none: "\<forall>j. py_int vid = Some j \<longrightarrow> \<not> (\<exists>u \<in> set (vehicles d). v_id u = j)"
      by simp
    from insert_minimal_effect [OF fresh_key(5)] obtain row where
      "accident_events d4 = accident_events d3" "vehicles d4 = vehicles d3 @ [row]"
      "v_vehicle_id row = vid" "v_accident_details row = Some notes"
      by blast
    with fresh_key(6) e e2 e3 v3' have
      "accident_events (persisted c') = accident_events d @ [e]"
      "vehicles (persisted c') = vehicles d @ [row]" "v_vehicle_id row = vid"
      "v_accident_details row = Some notes"
      by simp_all
    with e(2,3) a none show ?thesis by blast
  qed
qed

text \<open>In each of the three outcomes the addressed rows exist and carry the notes.\<close>

lemma targets_by_alias:
  assumes "\<exists>u \<in> set vs. v_vehicle_id u = vid"
    and "vehicles d' = map (\<lambda>v. if v_vehicle_id v = vid then set_summary now notes v else v) vs"
  shows "(\<exists>v. hw_targets d' vid v)
         \<and> (\<forall>v. hw_targets d' vid v \<longrightarrow> v_accident_details v = Some notes)"
proof -
  from assms(1) obtain u where u: "u \<in> set vs" "v_vehicle_id u = vid" by blast
  then have m: "set_summary now notes u \<in> set (vehicles d')"
    unfolding assms(2) by force
  have a: "v_vehicle_id (set_summary now notes u) = vid" using u by (simp add: set_summary_fields)
  from m a have t: "hw_targets d' vid (set_summary now notes u)" by (simp add: hw_targets_def)
  have "v_accident_details v = Some notes" if "hw_targets d' vid v" for v
  proof -
    from m a have ex: "\<exists>x \<in> set (vehicles d'). v_vehicle_id x = vid" by blast
    with that have v: "v \<in> set (vehicles d')" "v_vehicle_id v = vid"
      by (auto simp: hw_targets_def)
    from v(1) obtain x where "x \<in> set vs"
      "v = (if v_vehicle_id x = vid then set_summary now notes x else x)"
      unfolding assms(2) by auto
    with v(2) show ?thesis by (cases "v_vehicle_id x = vid") (simp_all add: set_summary_fields)
  qed
  with t show ?thesis by blast
qed

lemma targets_by_key:
  assumes "\<not> (\<exists>u \<in> set vs. v_vehicle_id u = vid)" and "py_int vid = Some i"
    and "\<exists>u \<in> set vs. v_id u = i"
    and "vehicles d' = map (\<lambda>v. if v_id v = i then set_summary now notes v else v) vs"
  shows "(\<exists>v. hw_targets d' vid v)
         \<and> (\<forall>v. hw_targets d' vid v \<longrightarrow> v_accident_details v = Some notes)"
proof -
  have na: "\<not> (\<exists>x \<in> set (vehicles d'). v_vehicle_id x = vid)"
  proof
    assume "\<exists>x \<in> set (vehicles d'). v_vehicle_id x = vid"
    then obtain y where "y \<in> set vs"
      "v_vehicle_id (if v_id y = i then set_summary now notes y else y) = vid"
      unfolding assms(4) by auto
    then have "y \<in> set vs" "v_vehicle_id y = vid"
      by (simp_all add: set_summary_fields split: if_splits)
    with assms(1) show False by blast
  qed
  from assms(3) obtain u where u: "u \<in> set vs" "v_id u = i" by blast
  then have m: "set_summary now notes u \<in> set (vehicles d')"
    unfolding assms(4) by force
  from m na u(2) assms(2) have t: "hw_targets d' vid (set_summary now notes u)"
    by (simp add: hw_targets_def set_summary_fields)
  have "v_accident_details v = Some notes" if "hw_targets d' vid v" for v
  proof -
    from that na assms(2) have v: "v \<in> set (vehicles d')" "v_id v = i"
      by (auto simp: hw_targets_def)
    from v(1) obtain x where "x \<in> set vs"
      "v = (if v_id x = i then set_summary now notes x else x)"
      unfolding assms(4) by auto
    with v(2) show ?thesis by (cases "v_id x = i") (simp_all add: set_summary_fields)
  qed
  with t show ?thesis by blast
qed

lemma targets_fresh:
  assumes "\<not> (\<exists>u \<in> set vs. v_vehicle_id u = vid)"
    and "vehicles d' = vs @ [row]" and "v_vehicle_id row = vid"
    and "v_accident_details row = Some notes"
  shows "(\<exists>v. hw_targets d' vid v)
         \<and> (\<forall>v. hw_targets d' vid v \<longrightarrow> v_accident_details v = Some notes)"
proof -
  from assms(2,3) have t: "hw_targets d' vid row" by (simp add: hw_targets_def)
  have "v_accident_details v = Some notes" if "hw_targets d' vid v" for v
  proof -
    from assms(2,3) have "\<exists>x \<in> set (vehicles d'). v_vehicle_id x = vid" by simp
    with that have "v \<in> set (vehicles d')" "v_vehicle_id v = vid"
      by (auto simp: hw_targets_def)
    with assms(1,2) have "v = row" by auto
    with assms(4) show ?thesis by simp
  qed
  with t show ?thesis by blast
qed

lemma hw_transaction_committed:
  assumes "hw_transaction env vid notes ts data (connect d) = (Inr u, c')"
  shows "(\<exists>e. accident_events (persisted c') = accident_events d @ [e] \<and> e_vehicle_id e = vid
              \<and> e_raw_payload e = Some data)
         \<and> (\<exists>v. hw_targets (persisted c') vid v)
         \<and> (\<forall>v. hw_targets (persisted c') vid v \<longrightarrow> v_accident_details v = Some notes)"
  using hw_transaction_rows [OF assms] targets_by_alias [of "vehicles d" vid "persisted c'"]
    targets_by_key [of "vehicles d" vid _ "persisted c'"]
    targets_fresh [of "vehicles d" vid "persisted c'"]
  by (elim conjE disjE exE) blast+

text \<open>
  The same outcome read from the state before the transaction: when the identifier addresses
  rows there, exactly those rows get the notes and every other row is as it was; when it
  addresses none, one row is appended with the identifier as its alias and the notes as its
  summary.
\<close>

lemma hw_transaction_targets:
  assumes "hw_transaction env vid notes ts data (connect d) = (Inr u, c')"
  shows "((\<exists>v. hw_targets d vid v)
            \<longrightarrow> vehicles (persisted c')
                  = map (\<lambda>v. if hw_targets d vid v then set_summary (sql_now env) notes v else v)
                      (vehicles d))
         \<and> (\<not> (\<exists>v. hw_targets d vid v)
            \<longrightarrow> (\<exists>row. vehicles (persisted c') = vehicles d @ [row] \<and> v_vehicle_id row = vid
                       \<and> v_accident_details row = Some notes))"
proof -
  let ?A = "\<exists>u \<in> set (vehicles d). v_vehicle_id u = vid"
  from hw_transaction_rows [OF assms] consider
    (by_alias) "?A"
      "vehicles (persisted c')
         = map (\<lambda>v. if v_vehicle_id v = vid then set_summary (sql_now env) notes v else v)
             (vehicles d)"
  | (by_key) i where "\<not> ?A" "py_int vid = Some i" "\<exists>u \<in> set (vehicles d). v_id u = i"
      "vehicles (persisted c')
         = map (\<lambda>v. if v_id v = i then set_summary (sql_now env) notes v else v) (vehicles d)"
  | (fresh) row where "\<not> ?A"
      "\<forall>i. py_int vid = Some i \<longrightarrow> \<not> (\<exists>u \<in> set (vehicles d). v_id u = i)"
      "vehicles (persisted c') = vehicles d @ [row]" "v_vehicle_id row = vid"
      "v_accident_details row = Some notes"
    by blast
  then show ?thesis
  proof cases
    case by_alias
    from by_alias(1) have t: "\<exists>v. hw_targets d vid v" by (auto simp: hw_targets_def)
    have "map (\<lambda>v. if v_vehicle_id v = vid then set_summary (sql_now env) notes v else v)
             (vehicles d)
          = map (\<lambda>v. if hw_targets d vid v then set_summary (sql_now env) notes v else v)
             (vehicles d)"
      using by_alias(1) by (intro map_cong refl) (auto simp: hw_targets_def)
    with by_alias(2) t show ?thesis by simp
  next
    case by_key
    from by_key(1,2,3) have t: "\<exists>v. hw_targets d vid v" by (auto simp: hw_targets_def)
    have "map (\<lambda>v. if v_id v = i then set_summary (sql_now env) notes v else v) (vehicles d)
          = map (\<lambda>v. if hw_targets d vid v then set_summary (sql_now env) notes v else v)
             (vehicles d)"
      using by_key(1,2) by (intro map_cong refl) (auto simp: hw_targets_def)
    with by_key(4) t show ?thesis by simp
  next
    case fresh
    from fresh(1,2) have "\<not> (\<exists>v. hw_targets d vid v)" by (auto simp: hw_targets_def)
    with fresh(3,4,5) show ?thesis by blast
  qed
qed

text \<open>A transaction that commits met no failure and found the columns it names.\<close>

lemma insert_event_hw_cols:
  "insert_event_hw now vid ts data d = Inr (n, d1) \<Longrightarrow>
     has_cols (ev_cols d) [''intensity'', ''lat'', ''lng'', ''timestamp'', ''raw_payload'']"
  by (auto simp: insert_event_hw_def split: if_splits)

lemma update_by_vehicle_id_cols:
  "update_summary_by_vehicle_id now notes vid d = Inr (rc, d2) \<Longrightarrow>
     has_cols (veh_cols d) [''updated_at'']"
  by (auto simp: update_summary_by_vehicle_id_def split: if_splits)

lemma hw_transaction_no_fault:
  assumes "hw_transaction env vid notes ts data (connect d) = (Inr u, c')"
  shows "\<not> storage_fails env HW_begin \<and> \<not> storage_fails env HW_insert_event
         \<and> \<not> storage_fails env HW_update_by_vehicle_id \<and> \<not> storage_fails env HW_commit
         \<and> has_cols (veh_cols d) [''updated_at'']
         \<and> has_cols (ev_cols d) [''intensity'', ''lat'', ''lng'', ''timestamp'', ''raw_payload'']
         \<and> (\<not> (\<exists>u \<in> set (vehicles d). v_vehicle_id u = vid) \<and> py_int vid \<noteq> None
              \<longrightarrow> \<not> storage_fails env HW_update_by_id)
         \<and> (\<not> (\<exists>u \<in> set (vehicles d). v_vehicle_id u = vid)
             \<and> (\<forall>i. py_int vid = Some i \<longrightarrow> \<not> (\<exists>u \<in> set (vehicles d). v_id u = i))
              \<longrightarrow> \<not> storage_fails env HW_insert_vehicle)"
proof -
  let ?now = "sql_now env"
  let ?A = "\<exists>u \<in> set (vehicles d). v_vehicle_id u = vid"
  from assms obtain c1 n d1 rc d2 c3 rc2 c4 rc3 where
    b: "c1 = (connect d)\<lparr>pending := Some d\<rparr>"
    and f: "\<not> storage_fails env HW_begin" "\<not> storage_fails env HW_insert_event"
      "\<not> storage_fails env HW_update_by_vehicle_id" "\<not> storage_fails env HW_commit"
    and i: "insert_event_hw ?now vid ts data (conn_view c1) = Inr (n, d1)"
    and u: "update_summary_by_vehicle_id ?now notes vid d1 = Inr (rc, d2)"
    and k: "(if rc = 0
             then (case py_int vid of
                     None \<Rightarrow> io_return rc
                   | Some iid \<Rightarrow> sql_execute env HW_update_by_id (update_summary_by_id ?now notes iid))
             else io_return rc) (c1\<lparr>pending := Some d2\<rparr>) = (Inr rc2, c3)"
    and v: "(if rc2 = 0
             then sql_execute env HW_insert_vehicle (insert_minimal_vehicle ?now vid notes)
             else io_return rc2) c3 = (Inr rc3, c4)"
    unfolding hw_transaction_def
    by (elim io_bind_InrE sql_begin_InrE sql_execute_InrE sql_commit_InrE)
       (simp add: connect_def conn_view_def)
  have i': "insert_event_hw ?now vid ts data d = Inr (n, d1)"
    using i b by (simp add: conn_view_def connect_def)
  from insert_event_hw_effect [OF i'] have v1: "vehicles d1 = vehicles d" "veh_cols d1 = veh_cols d"
    by simp_all
  from update_by_vehicle_id_effect [OF u] v1 have
    v2: "vehicles d2
         = map (\<lambda>v. if v_vehicle_id v = vid then set_summary ?now notes v else v) (vehicles d)"
    and rc: "rc = 0 \<longleftrightarrow> \<not> ?A"
    by simp_all
  have v2': "vehicles d2 = vehicles d" if "\<not> ?A"
    using that v2 map_if_none [of "vehicles d" "\<lambda>v. v_vehicle_id v = vid"] by simp
  have cols: "has_cols (veh_cols d) [''updated_at'']"
    "has_cols (ev_cols d) [''intensity'', ''lat'', ''lng'', ''timestamp'', ''raw_payload'']"
    using update_by_vehicle_id_cols [OF u] insert_event_hw_cols [OF i'] v1 by simp_all
  have key: "\<not> storage_fails env HW_update_by_id" if "\<not> ?A" "py_int vid \<noteq> None"
  proof -
    from that rc obtain iid where "rc = 0" "py_int vid = Some iid" by auto
    with k show ?thesis by (auto elim!: sql_execute_InrE)
  qed
  have ins: "\<not> storage_fails env HW_insert_vehicle"
    if a: "\<not> ?A" and n: "\<forall>i. py_int vid = Some i \<longrightarrow> \<not> (\<exists>u \<in> set (vehicles d). v_id u = i)"
  proof -
    from a rc have z: "rc = 0" by simp
    have "rc2 = 0"
    proof (cases "py_int vid")
      case None
      with z k show ?thesis by (auto elim!: io_return_InrE)
    next
      case (Some iid)
      with z k obtain d3 where "update_summary_by_id ?now notes iid d2 = Inr (rc2, d3)"
        by (auto simp: conn_view_def elim!: sql_execute_InrE)
      from update_by_id_effect [OF this] v2' [OF a] n Some show ?thesis by simp
    qed
    with v show ?thesis by (auto elim!: sql_execute_InrE)
  qed
  from f cols key ins show ?thesis by blast
qed

text \<open>The view in terms of its transaction.\<close>

lemma hw_event_unfold:
  assumes "py_or (header_api_key req) (arg_api_key req) = Some (hw_api_key env)"
    and "hw_body req = Parsed data" and "hw_vid_raw data = Some vid_raw"
  shows "hardware_event env w req =
           (case hw_transaction env (py_strip vid_raw) (hw_notes data) (hw_ts env data) data
                   (connect (store w)) of
              (Inl e, c) \<Rightarrow> (w\<lparr>store := sql_close c\<rparr>, server_error)
            | (Inr u, c) \<Rightarrow>
                if publish_fails env then (w\<lparr>store := sql_close c\<rparr>, server_error)
                else ((sse_publish w (py_strip vid_raw)
                         \<lparr>m_type = ''accident_event'', m_vehicleID = py_strip vid_raw,
                          m_intensity = p_intensity data, m_lat = p_lat data,
                          m_lng = p_lng data, m_timestamp = hw_ts env data,
                          m_notes = hw_notes data\<rparr>)\<lparr>store := sql_close c\<rparr>,
                      \<lparr>status = 201, body = [(''success'', JBool True)]\<rparr>))"
  using assms by (simp add: hardware_event_def Let_def split: prod.splits sum.splits)

lemma hw_event_failed:
  assumes "py_or (header_api_key req) (arg_api_key req) = Some (hw_api_key env)"
    and "hw_body req = Parsed data" and "hw_vid_raw data = Some vid_raw"
    and "hw_transaction env (py_strip vid_raw) (hw_notes data) (hw_ts env data) data
           (connect (store w)) = (Inl e, c)"
  shows "hardware_event env w req = (w, server_error)"
proof -
  from hw_transaction_failure [OF assms(4)] have "sql_close c = store w"
    by (simp add: sql_close_def connect_def)
  with assms(4) show ?thesis by (simp add: hw_event_unfold [OF assms(1-3)])
qed

lemma hw_event_created:
  assumes "hardware_event env w req = (w', resp)" and "status resp = 201"
  shows "\<exists>data vid_raw u c.
           py_or (header_api_key req) (arg_api_key req) = Some (hw_api_key env)
           \<and> hw_body req = Parsed data \<and> hw_vid_raw data = Some vid_raw
           \<and> hw_transaction env (py_strip vid_raw) (hw_notes data) (hw_ts env data) data
                (connect (store w)) = (Inr u, c)
           \<and> \<not> publish_fails env \<and> store w' = persisted c"
  using assms
  by (auto simp: hardware_event_def Let_def server_error_def http_abort_def sql_close_def
      split: if_splits json_body.splits option.splits prod.splits sum.splits)

section \<open>Ingestion is one transaction\<close>

lemma sql_publish_flag:
  "sql_begin (env\<lparr>publish_fails := b\<rparr>) = sql_begin env"
  "sql_execute (env\<lparr>publish_fails := b\<rparr>) = sql_execute env"
  "sql_commit (env\<lparr>publish_fails := b\<rparr>) = sql_commit env"
  by (simp_all add: sql_begin_def sql_execute_def sql_commit_def fun_eq_iff)

lemma hw_transaction_publish_flag:
  "hw_transaction (env\<lparr>publish_fails := b\<rparr>) = hw_transaction env"
  by (simp add: hw_transaction_def sql_publish_flag fun_eq_iff cong: if_cong option.case_cong)

lemma hw_store_publish_flag:
  "store (fst (hardware_event (env\<lparr>publish_fails := b\<rparr>) w req))
     = store (fst (hardware_event env w req))"
  by (simp add: hardware_event_def hw_transaction_publish_flag hw_ts_def Let_def
      split: json_body.splits option.splits prod.splits sum.splits)

text \<open>
  Claim C1. For a request to \<open>/hardware/event\<close> that passes the key check and the
  validation, either the answer is 500 and the state is the one before the request (no
  event row, no registry change, nothing published), or the event row is appended and the
  registry row the identifier addresses carries the notes, both from the one commit. In
  the second case the event is published and the answer is 201, or publishing raised and
  the answer is 500 with the committed rows kept. The first case is what happens when the
  storage engine fails \<open>BEGIN\<close>, the \<open>INSERT\<close> of the event, the first \<open>UPDATE\<close> or the
  commit, when a table lacks a column the statements name, or when it fails the second
  \<open>UPDATE\<close> or the \<open>INSERT\<close> of the vehicle where the code reaches them. Whether publishing
  fails does not change what is persisted.
\<close>

theorem hardware_event_atomic:
  assumes auth: "py_or (header_api_key req) (arg_api_key req) = Some (hw_api_key env)"
    and body: "hw_body req = Parsed data" and vid: "hw_vid_raw data = Some vid_raw"
    and res: "hardware_event env w req = (w', resp)"
  shows "((status resp = 500 \<and> w' = w)
          \<or> ((\<exists>e. accident_events (store w') = accident_events (store w) @ [e]
                   \<and> e_vehicle_id e = py_strip vid_raw \<and> e_raw_payload e = Some data)
              \<and> (\<exists>v. hw_targets (store w') (py_strip vid_raw) v)
              \<and> (\<forall>v. hw_targets (store w') (py_strip vid_raw) v
                     \<longrightarrow> v_accident_details v = Some (hw_notes data))
              \<and> subscribers w' = subscribers w
              \<and> ((status resp = 201 \<and> \<not> publish_fails env
                   \<and> heap w' = heap (sse_publish w (py_strip vid_raw)
                                 \<lparr>m_type = ''accident_event'', m_vehicleID = py_strip vid_raw,
                                  m_intensity = p_intensity data, m_lat = p_lat data,
                                  m_lng = p_lng data, m_timestamp = hw_ts env data,
                                  m_notes = hw_notes data\<rparr>))
                  \<or> (status resp = 500 \<and> publish_fails env \<and> heap w' = heap w))))
         \<and> (storage_fails env HW_begin \<or> storage_fails env HW_insert_event
             \<or> storage_fails env HW_update_by_vehicle_id \<or> storage_fails env HW_commit
             \<or> \<not> has_cols (veh_cols (store w)) [''updated_at'']
             \<or> \<not> has_cols (ev_cols (store w))
                     [''intensity'', ''lat'', ''lng'', ''timestamp'', ''raw_payload'']
             \<or> (storage_fails env HW_update_by_id
                 \<and> \<not> (\<exists>u \<in> set (vehicles (store w)). v_vehicle_id u = py_strip vid_raw)
                 \<and> py_int (py_strip vid_raw) \<noteq> None)
             \<or> (storage_fails env HW_insert_vehicle
                 \<and> \<not> (\<exists>u \<in> set (vehicles (store w)). v_vehicle_id u = py_strip vid_raw)
                 \<and> (\<forall>i. py_int (py_strip vid_raw) = Some i
                        \<longrightarrow> \<not> (\<exists>u \<in> set (vehicles (store w)). v_id u = i)))
             \<longrightarrow> status resp = 500 \<and> w' = w)
         \<and> store (fst (hardware_event (env\<lparr>publish_fails := True\<rparr>) w req)) = store w'"
proof -
  let ?vid = "py_strip vid_raw"
  let ?t = "hw_transaction env ?vid (hw_notes data) (hw_ts env data) data (connect (store w))"
  note unfold = hw_event_unfold [OF auth body vid, of w]
  have last: "store (fst (hardware_event (env\<lparr>publish_fails := True\<rparr>) w req)) = store w'"
    using hw_store_publish_flag [where env = env and b = True and w = w and req = req] res
    by simp
  obtain r c where t: "?t = (r, c)" by (cases ?t)
  show ?thesis
  proof (cases r)
    case (Inl e)
    with t have "hardware_event env w req = (w, server_error)"
      using hw_event_failed [OF auth body vid] by simp
    with res have "status resp = 500" "w' = w" by (auto simp: server_error_def)
    with last show ?thesis by simp
  next
    case (Inr u)
    with t have t': "?t = (Inr u, c)" by simp
    note com = hw_transaction_committed [OF t']
    note nf = hw_transaction_no_fault [OF t']
    from res t' have w': "store w' = persisted c" "subscribers w' = subscribers w"
      by (auto simp: unfold sql_close_def sse_publish_def Let_def split: if_splits)
    from res t' have p: "(status resp = 201 \<and> \<not> publish_fails env
                   \<and> heap w' = heap (sse_publish w ?vid
                                 \<lparr>m_type = ''accident_event'', m_vehicleID = ?vid,
                                  m_intensity = p_intensity data, m_lat = p_lat data,
                                  m_lng = p_lng data, m_timestamp = hw_ts env data,
                                  m_notes = hw_notes data\<rparr>))
                  \<or> (status resp = 500 \<and> publish_fails env \<and> heap w' = heap w)"
      by (auto simp: unfold server_error_def split: if_splits)
    from com w' p have B: "(\<exists>e. accident_events (store w') = accident_events (store w) @ [e]
                   \<and> e_vehicle_id e = ?vid \<and> e_raw_payload e = Some data)
              \<and> (\<exists>v. hw_targets (store w') ?vid v)
              \<and> (\<forall>v. hw_targets (store w') ?vid v
                     \<longrightarrow> v_accident_details v = Some (hw_notes data))
              \<and> subscribers w' = subscribers w
              \<and> ((status resp = 201 \<and> \<not> publish_fails env
                   \<and> heap w' = heap (sse_publish w ?vid
                                 \<lparr>m_type = ''accident_event'', m_vehicleID = ?vid,
                                  m_intensity = p_intensity data, m_lat = p_lat data,
                                  m_lng = p_lng data, m_timestamp = hw_ts env data,
                                  m_notes = hw_notes data\<rparr>))
                  \<or> (status resp = 500 \<and> publish_fails env \<and> heap w' = heap w))"
      by (simp add: connect_def)
    from nf have F: "\<not> (storage_fails env HW_begin \<or> storage_fails env HW_insert_event
             \<or> storage_fails env HW_update_by_vehicle_id \<or> storage_fails env HW_commit
             \<or> \<not> has_cols (veh_cols (store w)) [''updated_at'']
             \<or> \<not> has_cols (ev_cols (store w))
                     [''intensity'', ''lat'', ''lng'', ''timestamp'', ''raw_payload'']
             \<or> (storage_fails env HW_update_by_id
                 \<and> \<not> (\<exists>u \<in> set (vehicles (store w)). v_vehicle_id u = ?vid)
                 \<and> py_int ?vid \<noteq> None)
             \<or> (storage_fails env HW_insert_vehicle
                 \<and> \<not> (\<exists>u \<in> set (vehicles (store w)). v_vehicle_id u = ?vid)
                 \<and> (\<forall>i. py_int ?vid = Some i
                        \<longrightarrow> \<not> (\<exists>u \<in> set (vehicles (store w)). v_id u = i))))"
      by blast
    from B F last show ?thesis by blast
  qed
qed

text \<open>
  A request for \<open>VHL2023\<close> in four settings: the storage engine fails the first
  \<open>UPDATE\<close>; the table has no column \<open>updated_at\<close>; nothing fails; publishing raises.
\<close>

lemma hw_demo_results:
  "hardware_event failing_env hw_world (hw_req ''VHL2023'' ''rear collision'')
     = (hw_world, server_error)"
  "hardware_event demo_env repo_world (hw_req ''VHL2023'' ''rear collision'')
     = (repo_world, server_error)"
  by (simp_all add: hw_eval io_eval hw_demo Let_def)

theorem hardware_event_atomic_witness:
  "hardware_event failing_env hw_world (hw_req ''VHL2023'' ''rear collision'')
     = (hw_world, server_error)
   \<and> hardware_event demo_env repo_world (hw_req ''VHL2023'' ''rear collision'')
     = (repo_world, server_error)
   \<and> status (snd (hardware_event demo_env hw_world (hw_req ''VHL2023'' ''rear collision''))) = 201
   \<and> map e_vehicle_id (accident_events (store (fst
        (hardware_event demo_env hw_world (hw_req ''VHL2023'' ''rear collision''))))) = [''VHL2023'']
   \<and> map v_accident_details (vehicles (store (fst
        (hardware_event demo_env hw_world (hw_req ''VHL2023'' ''rear collision'')))))
       = [Some ''rear collision'']
   \<and> map m_notes (heap (fst
        (hardware_event demo_env hw_world (hw_req ''VHL2023'' ''rear collision''))) 0)
       = [''rear collision'']
   \<and> status (snd (hardware_event (demo_env\<lparr>publish_fails := True\<rparr>) hw_world
                    (hw_req ''VHL2023'' ''rear collision''))) = 500
   \<and> map e_vehicle_id (accident_events (store (fst
        (hardware_event (demo_env\<lparr>publish_fails := True\<rparr>) hw_world
           (hw_req ''VHL2023'' ''rear collision''))))) = [''VHL2023'']
   \<and> heap (fst (hardware_event (demo_env\<lparr>publish_fails := True\<rparr>) hw_world
                  (hw_req ''VHL2023'' ''rear collision''))) 0 = []"
proof -
  let ?req = "hw_req ''VHL2023'' ''rear collision''"
  let ?data = "hw_data ''VHL2023'' ''rear collision''"
  have a: "py_or (header_api_key ?req) (arg_api_key ?req) = Some (hw_api_key failing_env)"
    by (simp add: hw_req_def py_or_def failing_env_def demo_env_def)
  have b: "hw_body ?req = Parsed ?data" by (simp add: hw_req_def)
  have v: "hw_vid_raw ?data = Some ''VHL2023''" by (simp add: hw_vid_raw_def hw_data_def)
  from hardware_event_atomic [OF a b v hw_demo_results(1)]
  show ?thesis
    by (simp add: hw_eval io_eval hw_demo Let_def)
qed

section \<open>The summary follows the latest ingestion\<close>

lemma run_hw_snoc:
  "run_hw w (rs @ [(env, req)]) =
     (let (w1, resps) = run_hw w rs; (w2, r) = hardware_event env w1 req in (w2, resps @ [r]))"
  by (induction rs arbitrary: w) (auto simp: Let_def split: prod.splits)

lemma run_hw_length:
  "run_hw w rs = (w', resps) \<Longrightarrow> length resps = length rs"
proof (induction rs arbitrary: w w' resps)
  case Nil
  then show ?case by simp
next
  case (Cons x xs)
  obtain env req where x: "x = (env, req)" by (cases x)
  obtain w1 r where h: "hardware_event env w req = (w1, r)" by (cases "hardware_event env w req")
  obtain w2 rest where t: "run_hw w1 xs = (w2, rest)" by (cases "run_hw w1 xs")
  from Cons.prems x h t have "resps = r # rest" by simp
  with Cons.IH [OF t] show ?case by simp
qed

lemma hw_event_summary:
  assumes "hardware_event env w req = (w', resp)" and "status resp = 201"
  shows "\<exists>data vid_raw.
           hw_body req = Parsed data \<and> hw_vid_raw data = Some vid_raw
           \<and> (\<exists>e. accident_events (store w') = accident_events (store w) @ [e]
                   \<and> e_vehicle_id e = py_strip vid_raw \<and> e_raw_payload e = Some data)
           \<and> (\<exists>v. hw_targets (store w') (py_strip vid_raw) v)
           \<and> (\<forall>v. hw_targets (store w') (py_strip vid_raw) v
                  \<longrightarrow> v_accident_details v = Some (hw_notes data))"
proof -
  from hw_event_created [OF assms] obtain data vid_raw u c where
    b: "hw_body req = Parsed data" "hw_vid_raw data = Some vid_raw"
    and t: "hw_transaction env (py_strip vid_raw) (hw_notes data) (hw_ts env data) data
              (connect (store w)) = (Inr u, c)"
    and s: "store w' = persisted c"
    by blast
  from hw_transaction_committed [OF t] b s show ?thesis
    by (simp add: connect_def)
qed

text \<open>
  One request answered 201, read from the state \<open>w\<close> in which it is served: the rows its
  identifier addresses in \<open>w\<close> get the notes and no other row changes; when it addresses
  none, one row is appended.
\<close>

lemma hw_event_targets:
  assumes "hardware_event env w req = (w', resp)" and "status resp = 201"
    and "hw_body req = Parsed data" and "hw_vid_raw data = Some vid_raw"
  shows "((\<exists>v. hw_targets (store w) (py_strip vid_raw) v)
            \<longrightarrow> vehicles (store w')
                  = map (\<lambda>v. if hw_targets (store w) (py_strip vid_raw) v
                              then set_summary (sql_now env) (hw_notes data) v else v)
                      (vehicles (store w)))
         \<and> (\<not> (\<exists>v. hw_targets (store w) (py_strip vid_raw) v)
            \<longrightarrow> (\<exists>row. vehicles (store w') = vehicles (store w) @ [row]
                       \<and> v_vehicle_id row = py_strip vid_raw
                       \<and> v_accident_details row = Some (hw_notes data)))"
proof -
  from hw_event_created [OF assms(1,2)] obtain data' vid_raw' u c where
    b: "hw_body req = Parsed data'" "hw_vid_raw data' = Some vid_raw'"
    and t: "hw_transaction env (py_strip vid_raw') (hw_notes data') (hw_ts env data') data'
              (connect (store w)) = (Inr u, c)"
    and s: "store w' = persisted c"
    by blast
  from b assms(3,4) have "data' = data" "vid_raw' = vid_raw" by simp_all
  with hw_transaction_targets [OF t] s show ?thesis by simp
qed

lemma hw_before_last_snoc: "hw_before_last w (front @ [x]) = fst (run_hw w front)"
  by (simp add: hw_before_last_def)

text \<open>
  Claim C3. \<open>N \<ge> 1\<close> requests to \<open>/hardware/event\<close> are served one after the other and all
  are answered 201. Let \<open>w1\<close> be the state in which the last one is served, after the first
  \<open>N - 1\<close>. Then:

    \<^item> every registry row that the identifier of the last request addresses in \<open>w1\<close> (by
      alias, or else by key) has, in the final state, the notes of the last request as its
      summary (\<open>accident_details\<close>) and the time of that request as \<open>updated_at\<close>, and is
      otherwise as in \<open>w1\<close>; every other row of \<open>w1\<close> is unchanged and no row is added;
    \<^item> when the identifier addresses no row of \<open>w1\<close>, the final registry is that of \<open>w1\<close>
      with one row appended, whose alias is the identifier and whose summary is the notes;
    \<^item> in both cases the rows the identifier addresses in the final state exist and each
      has the notes of the last request as its summary.
\<close>

theorem summary_is_latest_notes:
  assumes "run_hw w rs = (w', resps)" and "rs \<noteq> []" and "\<forall>r \<in> set resps. status r = 201"
  shows "length resps = length rs
         \<and> (\<exists>data vid_raw.
               hw_body (snd (last rs)) = Parsed data \<and> hw_vid_raw data = Some vid_raw
               \<and> ((\<exists>v. hw_targets (store (hw_before_last w rs)) (py_strip vid_raw) v)
                    \<longrightarrow> vehicles (store w')
                          = map (\<lambda>v. if hw_targets (store (hw_before_last w rs))
                                          (py_strip vid_raw) v
                                      then set_summary (sql_now (fst (last rs))) (hw_notes data) v
                                      else v)
                              (vehicles (store (hw_before_last w rs))))
               \<and> (\<not> (\<exists>v. hw_targets (store (hw_before_last w rs)) (py_strip vid_raw) v)
                    \<longrightarrow> (\<exists>row. vehicles (store w')
                                 = vehicles (store (hw_before_last w rs)) @ [row]
                               \<and> v_vehicle_id row = py_strip vid_raw
                               \<and> v_accident_details row = Some (hw_notes data)))
               \<and> (\<exists>v. hw_targets (store w') (py_strip vid_raw) v)
               \<and> (\<forall>v. hw_targets (store w') (py_strip vid_raw) v
                      \<longrightarrow> v_accident_details v = Some (hw_notes data)))"
proof -
  from assms(2) obtain front env req where rs: "rs = front @ [(env, req)]"
    by (cases rs rule: rev_cases) auto
  obtain w1 resps1 where f: "run_hw w front = (w1, resps1)" by (cases "run_hw w front")
  obtain w2 r where h: "hardware_event env w1 req = (w2, r)"
    by (cases "hardware_event env w1 req")
  from assms(1) rs f h have e: "w' = w2" "resps = resps1 @ [r]"
    by (simp_all add: run_hw_snoc)
  with assms(3) have st: "status r = 201" by simp
  from rs f have b: "hw_before_last w rs = w1" by (simp add: hw_before_last_snoc)
  from rs have l: "snd (last rs) = req" "fst (last rs) = env" by simp_all
  from hw_event_summary [OF h st] obtain data vid_raw where
    p: "hw_body req = Parsed data" "hw_vid_raw data = Some vid_raw"
    and t: "\<exists>v. hw_targets (store w2) (py_strip vid_raw) v"
      "\<forall>v. hw_targets (store w2) (py_strip vid_raw) v
          \<longrightarrow> v_accident_details v = Some (hw_notes data)"
    by blast
  note pre = hw_event_targets [OF h st p]
  have n: "length resps = length rs" by (rule run_hw_length [OF assms(1)])
  from pre p t n show ?thesis
    unfolding b l e(1) by blast
qed

text \<open>
  A request by alias, then one by the key of the same vehicle, padded with blanks: both are
  answered 201. In the state in which the second is served the one row, key 1, carries the
  notes of the first and is the row that the identifier \<open>1\<close> addresses; in the final state
  that row carries the notes of the second and the time of the request, and no row has been
  added.
\<close>

theorem summary_is_latest_notes_witness:
  "demo_run \<noteq> [] \<and> map status (snd (run_hw hw_world demo_run)) = [201, 201]
   \<and> map hw_notes [hw_data ''VHL2023'' ''rear collision'', hw_data '' 1 '' ''side impact'']
       = [''rear collision'', ''side impact'']
   \<and> py_strip '' 1 '' = ''1''
   \<and> map v_id (vehicles (store (hw_before_last hw_world demo_run))) = [1]
   \<and> map v_accident_details (vehicles (store (hw_before_last hw_world demo_run)))
       = [Some ''rear collision'']
   \<and> map (hw_targets (store (hw_before_last hw_world demo_run)) ''1'')
         (vehicles (store (hw_before_last hw_world demo_run))) = [True]
   \<and> map v_id (vehicles (store (fst (run_hw hw_world demo_run)))) = [1]
   \<and> map v_accident_details (vehicles (store (fst (run_hw hw_world demo_run))))
       = [Some ''side impact'']
   \<and> map v_updated_at (vehicles (store (fst (run_hw hw_world demo_run))))
       = [Some ''2025-06-01 12:00:00'']"
proof -
  have r: "run_hw hw_world demo_run = (fst (run_hw hw_world demo_run), snd (run_hw hw_world demo_run))"
    by simp
  have n: "demo_run \<noteq> []" by (simp add: demo_run_def)
  have s: "\<forall>r \<in> set (snd (run_hw hw_world demo_run)). status r = 201"
    by (simp add: demo_run_def hw_eval io_eval hw_demo Let_def)
  from summary_is_latest_notes [OF r n s] n show ?thesis
    by (simp add: demo_run_def hw_before_last_def hw_targets_def hw_eval io_eval hw_demo Let_def)
qed

section \<open>The identifier an event row stores\<close>

text \<open>
  Claim C4, amended. The row a successful ingestion appends to the event log stores as its
  vehicle reference the identifier the caller supplied with the white space at both ends
  removed, whatever vehicle that identifier resolves to: never the alias or the key of the
  registry row in its place. When the supplied string has no white space at its ends the
  reference is that exact string. Column \<open>raw_payload\<close> keeps the payload as supplied.
\<close>

theorem event_stores_trimmed_identifier:
  assumes "hardware_event env w req = (w', resp)" and "status resp = 201"
  shows "\<exists>data vid_raw e.
           hw_body req = Parsed data \<and> hw_vid_raw data = Some vid_raw
           \<and> accident_events (store w') = accident_events (store w) @ [e]
           \<and> e_vehicle_id e = py_strip vid_raw \<and> e_raw_payload e = Some data
           \<and> (vid_raw \<noteq> [] \<and> \<not> py_isspace (hd vid_raw) \<and> \<not> py_isspace (last vid_raw)
                \<longrightarrow> e_vehicle_id e = vid_raw)"
proof -
  from hw_event_summary [OF assms] obtain data vid_raw e where
    "hw_body req = Parsed data" "hw_vid_raw data = Some vid_raw"
    "accident_events (store w') = accident_events (store w) @ [e]"
    "e_vehicle_id e = py_strip vid_raw" "e_raw_payload e = Some data"
    by blast
  then show ?thesis using py_strip_id [of vid_raw] by auto
qed

text \<open>
  An ingestion addressed by the key \<open>1\<close> of the vehicle whose alias is \<open>VHL2023\<close>: the
  registry row of that vehicle is updated and the event row stores \<open>1\<close>.
\<close>

theorem event_stores_trimmed_identifier_witness:
  "status (snd (hardware_event demo_env hw_world (hw_req ''1'' ''side impact''))) = 201
   \<and> hw_vid_raw (hw_data ''1'' ''side impact'') = Some ''1''
   \<and> map e_vehicle_id (accident_events (store (fst
        (hardware_event demo_env hw_world (hw_req ''1'' ''side impact''))))) = [''1'']
   \<and> map v_vehicle_id (vehicles (store (fst
        (hardware_event demo_env hw_world (hw_req ''1'' ''side impact''))))) = [''VHL2023'']
   \<and> map v_accident_details (vehicles (store (fst
        (hardware_event demo_env hw_world (hw_req ''1'' ''side impact'')))))
       = [Some ''side impact'']"
proof -
  let ?h = "hardware_event demo_env hw_world (hw_req ''1'' ''side impact'')"
  have r: "?h = (fst ?h, snd ?h)" by simp
  have s: "status (snd ?h) = 201" by (simp add: hw_eval io_eval hw_demo Let_def)
  from event_stores_trimmed_identifier [OF r s] s show ?thesis
    by (simp add: hw_eval io_eval hw_demo Let_def)
qed

text \<open>
  The claim as it was stated fails when the caller pads the identifier: the payload holds
  \<open>" 1 "\<close>, and the event row stores \<open>"1"\<close>. The same holds of every character that
  \<open>strip()\<close> removes: \<open>VHL2023\<close> between a NEL (0x85) and a no-break space (0xA0) is stored
  as \<open>VHL2023\<close>.
\<close>

theorem event_stores_trimmed_identifier_counterexample:
  "hw_body (hw_req '' 1 '' ''side impact'') = Parsed (hw_data '' 1 '' ''side impact'')
   \<and> hw_vid_raw (hw_data '' 1 '' ''side impact'') = Some '' 1 ''
   \<and> status (snd (hardware_event demo_env hw_world (hw_req '' 1 '' ''side impact''))) = 201
   \<and> map e_vehicle_id (accident_events (store (fst
        (hardware_event demo_env hw_world (hw_req '' 1 '' ''side impact''))))) = [''1'']
   \<and> ''1'' \<noteq> '' 1 ''
   \<and> hw_vid_raw (hw_data (CHR 0x85 # ''VHL2023'' @ [CHR 0xA0]) ''side impact'')
       = Some (CHR 0x85 # ''VHL2023'' @ [CHR 0xA0])
   \<and> status (snd (hardware_event demo_env hw_world
                    (hw_req (CHR 0x85 # ''VHL2023'' @ [CHR 0xA0]) ''side impact''))) = 201
   \<and> map e_vehicle_id (accident_events (store (fst
        (hardware_event demo_env hw_world
           (hw_req (CHR 0x85 # ''VHL2023'' @ [CHR 0xA0]) ''side impact''))))) = [''VHL2023'']"
  by (simp add: hw_eval io_eval hw_demo Let_def)

section \<open>The schemas of the repository\<close>

text \<open>
  No \<open>CREATE TABLE\<close> or \<open>ALTER TABLE\<close> of the repository gives table \<open>vehicles\<close> a column
  \<open>updated_at\<close>. On a table without it, every request to \<open>/hardware/event\<close> that passes
  the key check and the validation is answered 500 and changes nothing.
\<close>

lemma hardware_event_needs_updated_at:
  assumes "py_or (header_api_key req) (arg_api_key req) = Some (hw_api_key env)"
    and "hw_body req = Parsed data" and "hw_vid_raw data = Some vid_raw"
    and "''updated_at'' \<notin> set (veh_cols (store w))"
  shows "hardware_event env w req = (w, server_error)"
proof -
  let ?t = "hw_transaction env (py_strip vid_raw) (hw_notes data) (hw_ts env data) data
              (connect (store w))"
  obtain r c where t: "?t = (r, c)" by (cases ?t)
  show ?thesis
  proof (cases r)
    case (Inl e)
    with t hw_event_failed [OF assms(1-3)] show ?thesis by simp
  next
    case (Inr u)
    with t hw_transaction_no_fault [of env "py_strip vid_raw" "hw_notes data" "hw_ts env data" data "store w" u c]
    have "has_cols (veh_cols (store w)) [''updated_at'']" by simp
    with assms(4) show ?thesis by (simp add: has_cols_def)
  qed
qed

end
